theory Spec2Isabelle
  imports Main
begin

section \<open>Text, exceptions and Python values\<close>

text \<open>
  The module \<^verbatim>\<open>server/app/config.py\<close> is embedded as HOL functions. Python \<^verbatim>\<open>str\<close> values
  are modelled as \<^typ>\<open>string\<close>, holding the UTF-8 encoding of the text; the Japanese
  messages of the source are therefore written as byte lists. An exception that the
  source can raise is a value of \<open>py_error\<close>, and a function that can raise returns
  \<open>py_error + 'a\<close> with \<open>Inl\<close> for the exception.
\<close>

abbreviation newline :: char where "newline \<equiv> CHR 0x0A"
abbreviation carriage_return :: char where "carriage_return \<equiv> CHR 0x0D"
abbreviation squote :: char where "squote \<equiv> CHR 0x27"
abbreviation dquote :: char where "dquote \<equiv> CHR 0x22"
abbreviation backslash :: char where "backslash \<equiv> CHR 0x5C"

datatype py_error =
    KeyError
  | TypeError
  | AttributeError
  | ValueError string
  | AssertionError string
  | FileNotFoundError
  | UnicodeDecodeError
  | NoSuchProcess
  | ReError
  | ParseError
  | ValidationError "string list" string

text \<open>
  \<open>ValueError m\<close> and \<open>AssertionError m\<close> carry the message; \<open>ValidationError msgs txt\<close>
  is pydantic's exception, with the \<^verbatim>\<open>msg\<close> entry of every element of
  \<^verbatim>\<open>error.errors()\<close> in order and the text \<^verbatim>\<open>str(error)\<close>.
\<close>

definition digit_char :: "nat \<Rightarrow> char" where
  "digit_char d = ''0123456789'' ! d"

fun str_nat :: "nat \<Rightarrow> string" where
  "str_nat n = (if n < 10 then [digit_char n] else str_nat (n div 10) @ [digit_char (n mod 10)])"

declare str_nat.simps [simp del]

definition str_int :: "int \<Rightarrow> string" where
  \<comment> \<open>\<^verbatim>\<open>str(i)\<close> of a Python \<^verbatim>\<open>int\<close>\<close>
  "str_int i = (if i < 0 then CHR ''-'' # str_nat (nat (- i)) else str_nat (nat i))"

text \<open>
  The values that occur in the parsed settings file and in a settings object. A float is
  represented by the text \<^verbatim>\<open>str\<close> returns for it, a \<^verbatim>\<open>pathlib.Path\<close> by its path text;
  lists and mappings keep their items in order. \<open>PySub v\<close> is an instance of a proper
  subclass of the class of \<open>v\<close> that holds the value \<open>v\<close>: the \<^verbatim>\<open>ScalarFloat\<close>,
  \<^verbatim>\<open>ScalarInt\<close>, \<^verbatim>\<open>CommentedMap\<close> and \<^verbatim>\<open>CommentedSeq\<close> of the YAML parser, the URL
  strings of pydantic. Such an instance behaves as \<open>v\<close> in every operation of the module
  but the tests \<^verbatim>\<open>type(x) is T\<close> and \<^verbatim>\<open>x is y\<close>, which it fails. Values of other kinds
  (timestamps, bytes) are not modelled.
\<close>

datatype pyval =
    PyNone
  | PyBool bool
  | PyInt int
  | PyFloat string
  | PyStr string
  | PyPath string
  | PyList "pyval list"
  | PyDict "(pyval \<times> pyval) list"
  | PySub pyval

type_synonym pydict = "(pyval \<times> pyval) list"

fun base :: "pyval \<Rightarrow> pyval" where
  \<comment> \<open>the value an instance holds, whatever subclass it is an instance of\<close>
  "base (PySub v) = base v"
| "base v = v"

datatype 'a outcome = Returned 'a | Exited int | Raised py_error

text \<open>
  \<open>Returned v\<close> is a normal return, \<open>Exited n\<close> is \<^verbatim>\<open>sys.exit(n)\<close> and \<open>Raised e\<close> an
  exception that leaves the function.
\<close>

definition bind_err :: "py_error + 'a \<Rightarrow> ('a \<Rightarrow> py_error + 'b) \<Rightarrow> py_error + 'b" where
  "bind_err r f = (case r of Inl e \<Rightarrow> Inl e | Inr v \<Rightarrow> f v)"

text \<open>
  Keys of a mapping are compared by the value they hold. The equalities of Python between
  numbers of different classes are left out: the module looks up string keys only.
\<close>

fun dict_set :: "pydict \<Rightarrow> pyval \<Rightarrow> pyval \<Rightarrow> pydict" where
  \<comment> \<open>\<^verbatim>\<open>d[k] = v\<close>: an existing key keeps its place, a new key goes to the end\<close>
  "dict_set [] k v = [(k, v)]"
| "dict_set ((a, b) # kvs) k v =
     (if base a = base k then (a, v) # kvs else (a, b) # dict_set kvs k v)"

fun dict_find :: "pydict \<Rightarrow> pyval \<Rightarrow> pyval option" where
  "dict_find [] k = None"
| "dict_find ((a, b) # kvs) k = (if base a = base k then Some b else dict_find kvs k)"

definition dict_get :: "pydict \<Rightarrow> pyval \<Rightarrow> py_error + pyval" where
  \<comment> \<open>\<^verbatim>\<open>d[k]\<close> on a \<^verbatim>\<open>dict\<close>\<close>
  "dict_get d k = (case dict_find d k of None \<Rightarrow> Inl KeyError | Some v \<Rightarrow> Inr v)"

definition getitem :: "pyval \<Rightarrow> string \<Rightarrow> py_error + pyval" where
  \<comment> \<open>\<^verbatim>\<open>x[k]\<close> for a string key \<open>k\<close> on any value: only a mapping can be subscripted so\<close>
  "getitem x k = (case base x of PyDict d \<Rightarrow> dict_get d (PyStr k) | _ \<Rightarrow> Inl TypeError)"

definition getitem2 :: "pydict \<Rightarrow> string \<Rightarrow> string \<Rightarrow> py_error + pyval" where
  \<comment> \<open>\<^verbatim>\<open>config_dict[a][b]\<close>\<close>
  "getitem2 d a b = bind_err (dict_get d (PyStr a)) (\<lambda>x. getitem x b)"

fun update_mapping :: "(pydict \<Rightarrow> pydict) \<Rightarrow> pyval \<Rightarrow> pyval" where
  \<comment> \<open>a mapping changed in place keeps its class\<close>
  "update_mapping f (PyDict d) = PyDict (f d)"
| "update_mapping f (PySub v) = PySub (update_mapping f v)"
| "update_mapping f v = v"

definition setitem2 :: "pydict \<Rightarrow> string \<Rightarrow> string \<Rightarrow> pyval \<Rightarrow> pydict" where
  \<comment> \<open>\<^verbatim>\<open>config_dict[a][b] = v\<close>, used where \<^verbatim>\<open>config_dict[a]\<close> is known to be a mapping\<close>
  "setitem2 d a b v =
     (case dict_find d (PyStr a) of
        Some sec \<Rightarrow> dict_set d (PyStr a) (update_mapping (\<lambda>m. dict_set m (PyStr b) v) sec)
      | None \<Rightarrow> d)"

definition is_continuation :: "char \<Rightarrow> bool" where
  "is_continuation c \<longleftrightarrow> (128::nat) \<le> of_char c \<and> of_char c < (192::nat)"

function utf8_chars :: "string \<Rightarrow> string list" where
  \<comment> \<open>the characters of a text, each with its UTF-8 continuation bytes\<close>
  "utf8_chars [] = []"
| "utf8_chars (c # cs) = (c # takeWhile is_continuation cs) # utf8_chars (dropWhile is_continuation cs)"
  by pat_completeness auto
termination
  by (relation "measure length") (auto simp: length_dropWhile_le le_imp_less_Suc)

definition hashable :: "pyval \<Rightarrow> bool" where
  "hashable k = (case base k of PyList _ \<Rightarrow> False | PyDict _ \<Rightarrow> False | _ \<Rightarrow> True)"

definition msg_dict_length :: "nat \<Rightarrow> nat \<Rightarrow> string" where
  "msg_dict_length i n =
     ''dictionary update sequence element #'' @ str_nat i @ '' has length '' @ str_nat n
       @ ''; 2 is required''"

definition pair_of :: "nat \<Rightarrow> pyval \<Rightarrow> py_error + pyval \<times> pyval" where
  \<comment> \<open>element \<open>i\<close> of the sequence given to \<^verbatim>\<open>dict\<close> must be an iterable of two items\<close>
  "pair_of i x =
     (case base x of
        PyList [k, v] \<Rightarrow> if hashable k then Inr (k, v) else Inl TypeError
      | PyList xs \<Rightarrow> Inl (ValueError (msg_dict_length i (length xs)))
      | PyDict [(k, _), (k', _)] \<Rightarrow> Inr (k, k')
      | PyDict kvs \<Rightarrow> Inl (ValueError (msg_dict_length i (length kvs)))
      | PyStr t \<Rightarrow>
         (case utf8_chars t of
            [a, b] \<Rightarrow> Inr (PyStr a, PyStr b)
          | cs \<Rightarrow> Inl (ValueError (msg_dict_length i (length cs))))
      | _ \<Rightarrow> Inl TypeError)"

fun dict_of_pairs :: "nat \<Rightarrow> pyval list \<Rightarrow> pydict \<Rightarrow> py_error + pydict" where
  "dict_of_pairs i [] d = Inr d"
| "dict_of_pairs i (x # xs) d =
     (case pair_of i x of
        Inl e \<Rightarrow> Inl e
      | Inr (k, v) \<Rightarrow> dict_of_pairs (Suc i) xs (dict_set d k v))"

definition py_dict :: "pyval \<Rightarrow> py_error + pydict" where
  \<comment> \<open>the builtin \<^verbatim>\<open>dict(x)\<close>: a copy of a mapping, or a mapping built from a sequence of pairs\<close>
  "py_dict x =
     (case base x of
        PyDict d \<Rightarrow> Inr d
      | PyList xs \<Rightarrow> dict_of_pairs 0 xs []
      | PyStr t \<Rightarrow> (if t = [] then Inr [] else Inl (ValueError (msg_dict_length 0 1)))
      | _ \<Rightarrow> Inl TypeError)"

section \<open>The messages of the source\<close>

definition msg_port_range :: string where
  "msg_port_range =
     [CHR 0xE3, CHR 0x83, CHR 0x9D, CHR 0xE3, CHR 0x83, CHR 0xBC, CHR 0xE3, CHR 0x83,
     CHR 0x88, CHR 0xE7, CHR 0x95, CHR 0xAA, CHR 0xE5, CHR 0x8F, CHR 0xB7, CHR 0xE3,
     CHR 0x81, CHR 0xAE, CHR 0xE8, CHR 0xA8, CHR 0xAD, CHR 0xE5, CHR 0xAE, CHR 0x9A,
     CHR 0xE3, CHR 0x81, CHR 0x8C, CHR 0xE4, CHR 0xB8, CHR 0x8D, CHR 0xE6, CHR 0xAD,
     CHR 0xA3, CHR 0xE3, CHR 0x81, CHR 0xAA, CHR 0xE3, CHR 0x81, CHR 0x9F, CHR 0xE3,
     CHR 0x82, CHR 0x81, CHR 0xE3, CHR 0x80, CHR 0x81] @ ''KonomiTV '' @ [CHR 0xE3, CHR 0x82,
     CHR 0x92, CHR 0xE8, CHR 0xB5, CHR 0xB7, CHR 0xE5, CHR 0x8B, CHR 0x95, CHR 0xE3,
     CHR 0x81, CHR 0xA7, CHR 0xE3, CHR 0x81, CHR 0x8D, CHR 0xE3, CHR 0x81, CHR 0xBE,
     CHR 0xE3, CHR 0x81, CHR 0x9B, CHR 0xE3, CHR 0x82, CHR 0x93, CHR 0xE3, CHR 0x80,
     CHR 0x82, CHR 0x0A, CHR 0xE8, CHR 0xA8, CHR 0xAD, CHR 0xE5, CHR 0xAE, CHR 0x9A,
     CHR 0xE3, CHR 0x81, CHR 0x97, CHR 0xE3, CHR 0x81, CHR 0x9F, CHR 0xE3, CHR 0x83,
     CHR 0x9D, CHR 0xE3, CHR 0x83, CHR 0xBC, CHR 0xE3, CHR 0x83, CHR 0x88, CHR 0xE7,
     CHR 0x95, CHR 0xAA, CHR 0xE5, CHR 0x8F, CHR 0xB7, CHR 0xE3, CHR 0x81, CHR 0x8C] @
     '' 1024 ~ 65525 (65535 '' @ [CHR 0xE3, CHR 0x81, CHR 0xA7, CHR 0xE3, CHR 0x81, CHR 0xAF,
     CHR 0xE3, CHR 0x81, CHR 0xAA, CHR 0xE3, CHR 0x81, CHR 0x84] @ '') '' @ [CHR 0xE3,
     CHR 0x81, CHR 0xAE, CHR 0xE9, CHR 0x96, CHR 0x93, CHR 0xE3, CHR 0x81, CHR 0xAB,
     CHR 0xE5, CHR 0x8F, CHR 0x8E, CHR 0xE3, CHR 0x81, CHR 0xBE, CHR 0xE3, CHR 0x81,
     CHR 0xA3, CHR 0xE3, CHR 0x81, CHR 0xA6, CHR 0xE3, CHR 0x81, CHR 0x84, CHR 0xE3,
     CHR 0x82, CHR 0x8B, CHR 0xE3, CHR 0x81, CHR 0x8B, CHR 0xE3, CHR 0x82, CHR 0x92,
     CHR 0xE7, CHR 0xA2, CHR 0xBA, CHR 0xE8, CHR 0xAA, CHR 0x8D, CHR 0xE3, CHR 0x81,
     CHR 0x97, CHR 0xE3, CHR 0x81, CHR 0xA6, CHR 0xE3, CHR 0x81, CHR 0x8F, CHR 0xE3,
     CHR 0x81, CHR 0xA0, CHR 0xE3, CHR 0x81, CHR 0x95, CHR 0xE3, CHR 0x81, CHR 0x84,
     CHR 0xE3, CHR 0x80, CHR 0x82]"

definition frag_port :: string where
  "frag_port =
     [CHR 0xE3, CHR 0x83, CHR 0x9D, CHR 0xE3, CHR 0x83, CHR 0xBC, CHR 0xE3, CHR 0x83,
     CHR 0x88] @ '' ''"

definition frag_in_use :: string where
  "frag_in_use =
     '' '' @ [CHR 0xE3, CHR 0x81, CHR 0xAF, CHR 0xE4, CHR 0xBB, CHR 0x96, CHR 0xE3, CHR 0x81,
     CHR 0xAE, CHR 0xE3, CHR 0x83, CHR 0x97, CHR 0xE3, CHR 0x83, CHR 0xAD, CHR 0xE3,
     CHR 0x82, CHR 0xBB, CHR 0xE3, CHR 0x82, CHR 0xB9, CHR 0xE3, CHR 0x81, CHR 0xA7,
     CHR 0xE4, CHR 0xBD, CHR 0xBF, CHR 0xE3, CHR 0x82, CHR 0x8F, CHR 0xE3, CHR 0x82,
     CHR 0x8C, CHR 0xE3, CHR 0x81, CHR 0xA6, CHR 0xE3, CHR 0x81, CHR 0x84, CHR 0xE3,
     CHR 0x82, CHR 0x8B, CHR 0xE3, CHR 0x81, CHR 0x9F, CHR 0xE3, CHR 0x82, CHR 0x81,
     CHR 0xE3, CHR 0x80, CHR 0x81] @ ''KonomiTV '' @ [CHR 0xE3, CHR 0x82, CHR 0x92, CHR 0xE8,
     CHR 0xB5, CHR 0xB7, CHR 0xE5, CHR 0x8B, CHR 0x95, CHR 0xE3, CHR 0x81, CHR 0xA7,
     CHR 0xE3, CHR 0x81, CHR 0x8D, CHR 0xE3, CHR 0x81, CHR 0xBE, CHR 0xE3, CHR 0x81,
     CHR 0x9B, CHR 0xE3, CHR 0x82, CHR 0x93, CHR 0xE3, CHR 0x80, CHR 0x82, CHR 0x0A,
     CHR 0xE9, CHR 0x87, CHR 0x8D, CHR 0xE8, CHR 0xA4, CHR 0x87, CHR 0xE3, CHR 0x81,
     CHR 0x97, CHR 0xE3, CHR 0x81, CHR 0xA6] @ '' KonomiTV '' @ [CHR 0xE3, CHR 0x82,
     CHR 0x92, CHR 0xE8, CHR 0xB5, CHR 0xB7, CHR 0xE5, CHR 0x8B, CHR 0x95, CHR 0xE3,
     CHR 0x81, CHR 0x97, CHR 0xE3, CHR 0x81, CHR 0xA6, CHR 0xE3, CHR 0x81, CHR 0x84,
     CHR 0xE3, CHR 0x81, CHR 0xAA, CHR 0xE3, CHR 0x81, CHR 0x84, CHR 0xE3, CHR 0x81,
     CHR 0x8B, CHR 0xE3, CHR 0x80, CHR 0x81, CHR 0xE4, CHR 0xBB, CHR 0x96, CHR 0xE3,
     CHR 0x81, CHR 0xAE, CHR 0xE3, CHR 0x82, CHR 0xBD, CHR 0xE3, CHR 0x83, CHR 0x95,
     CHR 0xE3, CHR 0x83, CHR 0x88, CHR 0xE3, CHR 0x81, CHR 0xA7, CHR 0xE3, CHR 0x83,
     CHR 0x9D, CHR 0xE3, CHR 0x83, CHR 0xBC, CHR 0xE3, CHR 0x83, CHR 0x88] @ '' ''"

definition frag_check :: string where
  "frag_check =
     '' '' @ [CHR 0xE3, CHR 0x82, CHR 0x92, CHR 0xE4, CHR 0xBD, CHR 0xBF, CHR 0xE3, CHR 0x81,
     CHR 0xA3, CHR 0xE3, CHR 0x81, CHR 0xA6, CHR 0xE3, CHR 0x81, CHR 0x84, CHR 0xE3,
     CHR 0x81, CHR 0xAA, CHR 0xE3, CHR 0x81, CHR 0x84, CHR 0xE3, CHR 0x81, CHR 0x8B,
     CHR 0xE3, CHR 0x82, CHR 0x92, CHR 0xE7, CHR 0xA2, CHR 0xBA, CHR 0xE8, CHR 0xAA,
     CHR 0x8D, CHR 0xE3, CHR 0x81, CHR 0x97, CHR 0xE3, CHR 0x81, CHR 0xA6, CHR 0xE3,
     CHR 0x81, CHR 0x8F, CHR 0xE3, CHR 0x81, CHR 0xA0, CHR 0xE3, CHR 0x81, CHR 0x95,
     CHR 0xE3, CHR 0x81, CHR 0x84, CHR 0xE3, CHR 0x80, CHR 0x82]"

definition msg_invalid_settings :: string where
  "msg_invalid_settings =
     [CHR 0xE8, CHR 0xA8, CHR 0xAD, CHR 0xE5, CHR 0xAE, CHR 0x9A, CHR 0xE5, CHR 0x86,
     CHR 0x85, CHR 0xE5, CHR 0xAE, CHR 0xB9, CHR 0xE3, CHR 0x81, CHR 0x8C, CHR 0xE4,
     CHR 0xB8, CHR 0x8D, CHR 0xE6, CHR 0xAD, CHR 0xA3, CHR 0xE3, CHR 0x81, CHR 0xAA,
     CHR 0xE3, CHR 0x81, CHR 0x9F, CHR 0xE3, CHR 0x82, CHR 0x81, CHR 0xE3, CHR 0x80,
     CHR 0x81] @ ''KonomiTV '' @ [CHR 0xE3, CHR 0x82, CHR 0x92, CHR 0xE8, CHR 0xB5, CHR 0xB7,
     CHR 0xE5, CHR 0x8B, CHR 0x95, CHR 0xE3, CHR 0x81, CHR 0xA7, CHR 0xE3, CHR 0x81,
     CHR 0x8D, CHR 0xE3, CHR 0x81, CHR 0xBE, CHR 0xE3, CHR 0x81, CHR 0x9B, CHR 0xE3,
     CHR 0x82, CHR 0x93, CHR 0xE3, CHR 0x80, CHR 0x82]"

definition msg_see_errors :: string where
  "msg_see_errors =
     [CHR 0xE4, CHR 0xBB, CHR 0xA5, CHR 0xE4, CHR 0xB8, CHR 0x8B, CHR 0xE3, CHR 0x81,
     CHR 0xAE, CHR 0xE3, CHR 0x82, CHR 0xA8, CHR 0xE3, CHR 0x83, CHR 0xA9, CHR 0xE3,
     CHR 0x83, CHR 0xBC, CHR 0xE3, CHR 0x83, CHR 0xA1, CHR 0xE3, CHR 0x83, CHR 0x83,
     CHR 0xE3, CHR 0x82, CHR 0xBB, CHR 0xE3, CHR 0x83, CHR 0xBC, CHR 0xE3, CHR 0x82,
     CHR 0xB8, CHR 0xE3, CHR 0x82, CHR 0x92, CHR 0xE5, CHR 0x8F, CHR 0x82, CHR 0xE8,
     CHR 0x80, CHR 0x83, CHR 0xE3, CHR 0x81, CHR 0xAB, CHR 0xE3, CHR 0x80, CHR 0x81] @
     ''config.yaml '' @ [CHR 0xE3, CHR 0x81, CHR 0xAE, CHR 0xE8, CHR 0xA8, CHR 0x98,
     CHR 0xE8, CHR 0xBF, CHR 0xB0, CHR 0xE3, CHR 0x81, CHR 0x8C, CHR 0xE6, CHR 0xAD,
     CHR 0xA3, CHR 0xE3, CHR 0x81, CHR 0x97, CHR 0xE3, CHR 0x81, CHR 0x84, CHR 0xE3,
     CHR 0x81, CHR 0x8B, CHR 0xE3, CHR 0x82, CHR 0x92, CHR 0xE7, CHR 0xA2, CHR 0xBA,
     CHR 0xE8, CHR 0xAA, CHR 0x8D, CHR 0xE3, CHR 0x81, CHR 0x97, CHR 0xE3, CHR 0x81,
     CHR 0xA6, CHR 0xE3, CHR 0x81, CHR 0x8F, CHR 0xE3, CHR 0x81, CHR 0xA0, CHR 0xE3,
     CHR 0x81, CHR 0x95, CHR 0xE3, CHR 0x81, CHR 0x84, CHR 0xE3, CHR 0x80, CHR 0x82]"

definition domain_marker :: string where
  "domain_marker =
     [CHR 0xE3, CHR 0x80, CHR 0x82]"

definition msg_no_file :: string where
  "msg_no_file =
     [CHR 0xE8, CHR 0xA8, CHR 0xAD, CHR 0xE5, CHR 0xAE, CHR 0x9A, CHR 0xE3, CHR 0x83,
     CHR 0x95, CHR 0xE3, CHR 0x82, CHR 0xA1, CHR 0xE3, CHR 0x82, CHR 0xA4, CHR 0xE3,
     CHR 0x83, CHR 0xAB, CHR 0xE3, CHR 0x81, CHR 0x8C, CHR 0xE9, CHR 0x85, CHR 0x8D,
     CHR 0xE7, CHR 0xBD, CHR 0xAE, CHR 0xE3, CHR 0x81, CHR 0x95, CHR 0xE3, CHR 0x82,
     CHR 0x8C, CHR 0xE3, CHR 0x81, CHR 0xA6, CHR 0xE3, CHR 0x81, CHR 0x84, CHR 0xE3,
     CHR 0x81, CHR 0xAA, CHR 0xE3, CHR 0x81, CHR 0x84, CHR 0xE3, CHR 0x81, CHR 0x9F,
     CHR 0xE3, CHR 0x82, CHR 0x81, CHR 0xE3, CHR 0x80, CHR 0x81] @ ''KonomiTV '' @ [CHR 0xE3,
     CHR 0x82, CHR 0x92, CHR 0xE8, CHR 0xB5, CHR 0xB7, CHR 0xE5, CHR 0x8B, CHR 0x95,
     CHR 0xE3, CHR 0x81, CHR 0xA7, CHR 0xE3, CHR 0x81, CHR 0x8D, CHR 0xE3, CHR 0x81,
     CHR 0xBE, CHR 0xE3, CHR 0x81, CHR 0x9B, CHR 0xE3, CHR 0x82, CHR 0x93, CHR 0xE3,
     CHR 0x80, CHR 0x82]"

definition msg_copy_example :: string where
  "msg_copy_example =
     ''config.example.yaml '' @ [CHR 0xE3, CHR 0x82, CHR 0x92] @ '' config.yaml '' @
     [CHR 0xE3, CHR 0x81, CHR 0xAB, CHR 0xE3, CHR 0x82, CHR 0xB3, CHR 0xE3, CHR 0x83,
     CHR 0x94, CHR 0xE3, CHR 0x83, CHR 0xBC, CHR 0xE3, CHR 0x81, CHR 0x97, CHR 0xE3,
     CHR 0x80, CHR 0x81, CHR 0xE3, CHR 0x81, CHR 0x8A, CHR 0xE4, CHR 0xBD, CHR 0xBF,
     CHR 0xE3, CHR 0x81, CHR 0x84, CHR 0xE3, CHR 0x81, CHR 0xAE, CHR 0xE7, CHR 0x92,
     CHR 0xB0, CHR 0xE5, CHR 0xA2, CHR 0x83, CHR 0xE3, CHR 0x81, CHR 0xAB, CHR 0xE5,
     CHR 0x90, CHR 0x88, CHR 0xE3, CHR 0x82, CHR 0x8F, CHR 0xE3, CHR 0x81, CHR 0x9B,
     CHR 0xE3, CHR 0x81, CHR 0xA6, CHR 0xE7, CHR 0xB7, CHR 0xA8, CHR 0xE9, CHR 0x9B,
     CHR 0x86, CHR 0xE3, CHR 0x81, CHR 0x97, CHR 0xE3, CHR 0x81, CHR 0xA6, CHR 0xE3,
     CHR 0x81, CHR 0x8F, CHR 0xE3, CHR 0x81, CHR 0xA0, CHR 0xE3, CHR 0x81, CHR 0x95,
     CHR 0xE3, CHR 0x81, CHR 0x84, CHR 0xE3, CHR 0x80, CHR 0x82]"

definition msg_empty_file :: string where
  "msg_empty_file =
     [CHR 0xE8, CHR 0xA8, CHR 0xAD, CHR 0xE5, CHR 0xAE, CHR 0x9A, CHR 0xE3, CHR 0x83,
     CHR 0x95, CHR 0xE3, CHR 0x82, CHR 0xA1, CHR 0xE3, CHR 0x82, CHR 0xA4, CHR 0xE3,
     CHR 0x83, CHR 0xAB, CHR 0xE3, CHR 0x81, CHR 0x8C, CHR 0xE7, CHR 0xA9, CHR 0xBA,
     CHR 0xE3, CHR 0x81, CHR 0xAE, CHR 0xE3, CHR 0x81, CHR 0x9F, CHR 0xE3, CHR 0x82,
     CHR 0x81, CHR 0xE3, CHR 0x80, CHR 0x81] @ ''KonomiTV '' @ [CHR 0xE3, CHR 0x82, CHR 0x92,
     CHR 0xE8, CHR 0xB5, CHR 0xB7, CHR 0xE5, CHR 0x8B, CHR 0x95, CHR 0xE3, CHR 0x81,
     CHR 0xA7, CHR 0xE3, CHR 0x81, CHR 0x8D, CHR 0xE3, CHR 0x81, CHR 0xBE, CHR 0xE3,
     CHR 0x81, CHR 0x9B, CHR 0xE3, CHR 0x82, CHR 0x93, CHR 0xE3, CHR 0x80, CHR 0x82]"

definition msg_load_error :: string where
  "msg_load_error =
     [CHR 0xE8, CHR 0xA8, CHR 0xAD, CHR 0xE5, CHR 0xAE, CHR 0x9A, CHR 0xE3, CHR 0x83,
     CHR 0x95, CHR 0xE3, CHR 0x82, CHR 0xA1, CHR 0xE3, CHR 0x82, CHR 0xA4, CHR 0xE3,
     CHR 0x83, CHR 0xAB, CHR 0xE3, CHR 0x81, CHR 0xAE, CHR 0xE3, CHR 0x83, CHR 0xAD,
     CHR 0xE3, CHR 0x83, CHR 0xBC, CHR 0xE3, CHR 0x83, CHR 0x89, CHR 0xE4, CHR 0xB8,
     CHR 0xAD, CHR 0xE3, CHR 0x81, CHR 0xAB, CHR 0xE3, CHR 0x82, CHR 0xA8, CHR 0xE3,
     CHR 0x83, CHR 0xA9, CHR 0xE3, CHR 0x83, CHR 0xBC, CHR 0xE3, CHR 0x81, CHR 0x8C,
     CHR 0xE7, CHR 0x99, CHR 0xBA, CHR 0xE7, CHR 0x94, CHR 0x9F, CHR 0xE3, CHR 0x81,
     CHR 0x97, CHR 0xE3, CHR 0x81, CHR 0x9F, CHR 0xE3, CHR 0x81, CHR 0x9F, CHR 0xE3,
     CHR 0x82, CHR 0x81, CHR 0xE3, CHR 0x80, CHR 0x81] @ ''KonomiTV '' @ [CHR 0xE3, CHR 0x82,
     CHR 0x92, CHR 0xE8, CHR 0xB5, CHR 0xB7, CHR 0xE5, CHR 0x8B, CHR 0x95, CHR 0xE3,
     CHR 0x81, CHR 0xA7, CHR 0xE3, CHR 0x81, CHR 0x8D, CHR 0xE3, CHR 0x81, CHR 0xBE,
     CHR 0xE3, CHR 0x81, CHR 0x9B, CHR 0xE3, CHR 0x82, CHR 0x93, CHR 0xE3, CHR 0x80,
     CHR 0x82]"

definition msg_already_loaded :: string where
  "msg_already_loaded =
     ''LoadConfig() '' @ [CHR 0xE3, CHR 0x81, CHR 0xAF, CHR 0xE6, CHR 0x97, CHR 0xA2,
     CHR 0xE3, CHR 0x81, CHR 0xAB, CHR 0xE5, CHR 0x91, CHR 0xBC, CHR 0xE3, CHR 0x81,
     CHR 0xB3, CHR 0xE5, CHR 0x87, CHR 0xBA, CHR 0xE3, CHR 0x81, CHR 0x95, CHR 0xE3,
     CHR 0x82, CHR 0x8C, CHR 0xE3, CHR 0x81, CHR 0xA6, CHR 0xE3, CHR 0x81, CHR 0x84,
     CHR 0xE3, CHR 0x81, CHR 0xBE, CHR 0xE3, CHR 0x81, CHR 0x99, CHR 0xE3, CHR 0x80,
     CHR 0x82]"

definition msg_not_initialized :: string where
  "msg_not_initialized =
     [CHR 0xE3, CHR 0x82, CHR 0xB5, CHR 0xE3, CHR 0x83, CHR 0xBC, CHR 0xE3, CHR 0x83,
     CHR 0x90, CHR 0xE3, CHR 0x83, CHR 0xBC, CHR 0xE8, CHR 0xA8, CHR 0xAD, CHR 0xE5,
     CHR 0xAE, CHR 0x9A, CHR 0xE3, CHR 0x83, CHR 0x87, CHR 0xE3, CHR 0x83, CHR 0xBC,
     CHR 0xE3, CHR 0x82, CHR 0xBF, CHR 0xE3, CHR 0x81, CHR 0x8C, CHR 0xE5, CHR 0x88,
     CHR 0x9D, CHR 0xE6, CHR 0x9C, CHR 0x9F, CHR 0xE5, CHR 0x8C, CHR 0x96, CHR 0xE3,
     CHR 0x81, CHR 0x95, CHR 0xE3, CHR 0x82, CHR 0x8C, CHR 0xE3, CHR 0x81, CHR 0xA6,
     CHR 0xE3, CHR 0x81, CHR 0x84, CHR 0xE3, CHR 0x81, CHR 0xBE, CHR 0xE3, CHR 0x81,
     CHR 0x9B, CHR 0xE3, CHR 0x82, CHR 0x93, CHR 0xE3, CHR 0x80, CHR 0x82]"



section \<open>The port validator\<close>








section \<open>Settings, collaborators and the process state\<close>

text \<open>
  A \<^verbatim>\<open>ServerSettings\<close> object is identified with the nested mapping \<^verbatim>\<open>config.dict()\<close>
  returns for it: section name to field name to value. The collaborators that are not
  part of the module are parameters, collected in \<open>env\<close>:
  \<^item> \<open>GetPlatformEnvironment\<close> is the result of \<^verbatim>\<open>GetPlatformEnvironment()\<close>;
  \<^item> \<open>yaml_load\<close> is \<^verbatim>\<open>ruamel.yaml.YAML().load\<close> on the text of the file;
  \<^item> \<open>ServerSettings\<close> is the validating constructor \<^verbatim>\<open>ServerSettings(**config_dict)\<close>,
    which runs the pydantic validators and may raise \<open>ValidationError\<close>;
  \<^item> \<open>construct\<close> is pydantic's \<^verbatim>\<open>construct(**section)\<close> of the section model with the
    given name;
  \<^item> \<open>container_str\<close> is \<^verbatim>\<open>str\<close> on a list or a mapping;
  \<^item> \<open>decodable\<close> says whether the UTF-8 codec accepts the bytes of a file;
  \<^item> \<open>linesep\<close> is \<^verbatim>\<open>os.linesep\<close>, the line end of the platform.
  The state of the process that the module reads and writes is \<open>world\<close>: the module
  variable \<^verbatim>\<open>_CONFIG\<close>, the bytes of \<^verbatim>\<open>config.yaml\<close> on disk (\<open>None\<close> when the file
  does not exist) and the lines given to the logger so far.

  The module opens the file in text mode with \<^verbatim>\<open>encoding='utf-8'\<close> and the default
  \<^verbatim>\<open>newline\<close>. Reading decodes the bytes, which raises \<^verbatim>\<open>UnicodeDecodeError\<close> for bytes
  the codec does not accept, and turns every line end, \<^verbatim>\<open>\r\n\<close>, \<^verbatim>\<open>\r\<close> or \<^verbatim>\<open>\n\<close>, into
  one newline; writing turns every newline into \<^verbatim>\<open>os.linesep\<close>. The strings of a
  document are taken to be encodable.
\<close>

type_synonym settings = "string \<rightharpoonup> (string \<rightharpoonup> pyval)"

record env =
  GetPlatformEnvironment :: string
  yaml_load :: "string \<Rightarrow> py_error + pyval"
  ServerSettings :: "pydict \<Rightarrow> py_error + settings"
  construct :: "string \<Rightarrow> pyval \<Rightarrow> py_error + (string \<rightharpoonup> pyval)"
  container_str :: "pyval \<Rightarrow> string"
  decodable :: "string \<Rightarrow> bool"
  linesep :: string

datatype log_entry =
    LogError string
  | LogErrorException py_error
  | LogDebug string

text \<open>
  \<open>LogErrorException e\<close> is the error line \<^verbatim>\<open>f'{type(error).__name__}: {error}'\<close> for the
  exception \<open>e\<close>.
\<close>

record world =
  CONFIG :: "settings option"
  config_yaml :: "string option"
  logged :: "log_entry list"

fun universal_newlines :: "bool \<Rightarrow> string \<Rightarrow> string" where
  \<comment> \<open>the line ends of a text as text mode reads them; the flag says that the character
      before was a carriage return, so that a newline after it is the rest of one line end\<close>
  "universal_newlines after_cr [] = []"
| "universal_newlines after_cr (c # cs) =
     (if c = carriage_return then newline # universal_newlines True cs
      else if c = newline \<and> after_cr then universal_newlines False cs
      else c # universal_newlines False cs)"

definition read_text :: "env \<Rightarrow> string \<Rightarrow> py_error + string" where
  \<comment> \<open>\<^verbatim>\<open>file.read()\<close> on the file opened for reading\<close>
  "read_text env bytes =
     (if decodable env bytes then Inr (universal_newlines False bytes) else Inl UnicodeDecodeError)"

definition write_text :: "env \<Rightarrow> string \<Rightarrow> string" where
  \<comment> \<open>the bytes \<^verbatim>\<open>file.write(text)\<close> puts on disk\<close>
  "write_text env text = concat (map (\<lambda>c. if c = newline then linesep env else [c]) text)"

definition DOCKER_PATH_PREFIX :: string where
  "DOCKER_PATH_PREFIX = ''/host-rootfs''"

definition unverified :: "env \<Rightarrow> pydict \<Rightarrow> py_error + settings" where
  "unverified env config_dict =
     bind_err (dict_get config_dict (PyStr ''general'')) (\<lambda>g.
     bind_err (construct env ''general'' g) (\<lambda>general.
     bind_err (dict_get config_dict (PyStr ''server'')) (\<lambda>s.
     bind_err (construct env ''server'' s) (\<lambda>server.
     bind_err (dict_get config_dict (PyStr ''tv'')) (\<lambda>t.
     bind_err (construct env ''tv'' t) (\<lambda>tv.
     bind_err (dict_get config_dict (PyStr ''capture'')) (\<lambda>c.
     bind_err (construct env ''capture'' c) (\<lambda>capture.
     bind_err (dict_get config_dict (PyStr ''twitter'')) (\<lambda>w.
     bind_err (construct env ''twitter'' w) (\<lambda>twitter.
       Inr [''general'' \<mapsto> general, ''server'' \<mapsto> server, ''tv'' \<mapsto> tv,
            ''capture'' \<mapsto> capture, ''twitter'' \<mapsto> twitter]))))))))))"

section \<open>LoadConfig\<close>

definition rstrip_slash :: "pyval \<Rightarrow> py_error + pyval" where
  \<comment> \<open>\<^verbatim>\<open>x.rstrip('/')\<close>: only a string has the method\<close>
  "rstrip_slash x =
     (case base x of
        PyStr t \<Rightarrow> Inr (PyStr (rev (dropWhile (\<lambda>c. c = CHR ''/'') (rev t))))
      | _ \<Rightarrow> Inl AttributeError)"

definition add_prefix :: "pyval \<Rightarrow> py_error + pyval" where
  \<comment> \<open>\<^verbatim>\<open>_DOCKER_PATH_PREFIX + x\<close>: only a string can be appended to a string\<close>
  "add_prefix x =
     (case base x of PyStr t \<Rightarrow> Inr (PyStr (DOCKER_PATH_PREFIX @ t)) | _ \<Rightarrow> Inl TypeError)"

definition step_err :: "pydict \<Rightarrow> py_error + 'a \<Rightarrow> ('a \<Rightarrow> py_error \<times> pydict + pydict)
    \<Rightarrow> py_error \<times> pydict + pydict" where
  \<comment> \<open>one statement of a \<^verbatim>\<open>try\<close> body: an exception is kept with the mapping as it is then\<close>
  "step_err d r f = (case r of Inl e \<Rightarrow> Inl (e, d) | Inr v \<Rightarrow> f v)"

definition normalize_body :: "env \<Rightarrow> pydict \<Rightarrow> py_error \<times> pydict + pydict" where
  \<comment> \<open>the body of the second \<^verbatim>\<open>try\<close> of \<^verbatim>\<open>LoadConfig\<close>\<close>
  "normalize_body env d0 =
     step_err d0 (bind_err (getitem2 d0 ''general'' ''edcb_url'') rstrip_slash) (\<lambda>edcb.
       let d1 = setitem2 d0 ''general'' ''edcb_url'' edcb in
     step_err d1 (bind_err (getitem2 d1 ''general'' ''mirakurun_url'') rstrip_slash) (\<lambda>mirakurun.
       let d2 = setitem2 d1 ''general'' ''mirakurun_url'' mirakurun in
     if GetPlatformEnvironment env = ''Linux-Docker'' then
       step_err d2 (bind_err (getitem2 d2 ''capture'' ''upload_folder'') add_prefix) (\<lambda>folder.
         let d3 = setitem2 d2 ''capture'' ''upload_folder'' folder in
       step_err d3 (getitem2 d3 ''tv'' ''debug_mode_ts_path'') (\<lambda>ts.
         case ts of
           PyStr _ \<Rightarrow>
             step_err d3 (bind_err (getitem2 d3 ''tv'' ''debug_mode_ts_path'') add_prefix) (\<lambda>ts'.
               Inr (setitem2 d3 ''tv'' ''debug_mode_ts_path'' ts'))
         | _ \<Rightarrow> Inr d3))
     else Inr d2))"

definition normalize :: "env \<Rightarrow> pydict \<Rightarrow> py_error + pydict" where
  \<comment> \<open>the second \<^verbatim>\<open>try\<close> with its \<^verbatim>\<open>except KeyError: pass\<close>\<close>
  "normalize env d =
     (case normalize_body env d of
        Inr d' \<Rightarrow> Inr d'
      | Inl (KeyError, d') \<Rightarrow> Inr d'
      | Inl (e, d') \<Rightarrow> Inl e)"

fun contains :: "string \<Rightarrow> string \<Rightarrow> bool" where
  \<comment> \<open>\<^verbatim>\<open>sub in s\<close> on strings\<close>
  "contains sub [] = (sub = [])"
| "contains sub (c # cs) = (take (length sub) (c # cs) = sub \<or> contains sub cs)"

fun split_on :: "char \<Rightarrow> string \<Rightarrow> string list" where
  \<comment> \<open>\<^verbatim>\<open>s.split(c)\<close> for a separator of one character\<close>
  "split_on sep [] = [[]]"
| "split_on sep (c # cs) =
     (if c = sep then [] # split_on sep cs
      else (case split_on sep cs of [] \<Rightarrow> [[c]] | l # ls \<Rightarrow> (c # l) # ls))"

fun log_custom_errors :: "string list \<Rightarrow> bool \<Rightarrow> log_entry list \<Rightarrow> bool \<times> log_entry list" where
  \<comment> \<open>the loop over \<^verbatim>\<open>error.errors()\<close>, with the flag \<^verbatim>\<open>custom_error\<close> and the log\<close>
  "log_custom_errors [] custom_error lg = (custom_error, lg)"
| "log_custom_errors (msg # msgs) custom_error lg =
     (if contains domain_marker msg
      then log_custom_errors msgs True (lg @ map LogError (split_on CHR 0x0A msg))
      else log_custom_errors msgs custom_error lg)"

definition on_validation_error :: "string list \<Rightarrow> string \<Rightarrow> world \<Rightarrow> settings outcome \<times> world" where
  \<comment> \<open>the handler \<^verbatim>\<open>except ValidationError as error\<close>\<close>
  "on_validation_error msgs txt w =
     (case log_custom_errors msgs False (logged w) of
        (custom_error, lg) \<Rightarrow>
          if custom_error then (Exited 1, w\<lparr>logged := lg\<rparr>)
          else (Exited 1, w\<lparr>logged := lg @ [LogError msg_invalid_settings,
                                              LogError msg_see_errors, LogError txt]\<rparr>))"

definition msg_loaded :: string where
  "msg_loaded = ''Server settings loaded.''"

definition msg_loaded_bypassed :: string where
  "msg_loaded_bypassed = ''Server settings loaded (bypassed validation).''"

definition LoadConfig :: "env \<Rightarrow> bool \<Rightarrow> world \<Rightarrow> settings outcome \<times> world" where
  "LoadConfig env bypass_validation w =
     (if CONFIG w \<noteq> None then (Raised (AssertionError msg_already_loaded), w)
      else case config_yaml w of
        None \<Rightarrow>
          (Exited 1, w\<lparr>logged := logged w @ [LogError msg_no_file, LogError msg_copy_example]\<rparr>)
      | Some bytes \<Rightarrow>
         (case bind_err (read_text env bytes) (yaml_load env) of
            Inl e \<Rightarrow>
              (Exited 1, w\<lparr>logged := logged w @ [LogError msg_load_error, LogErrorException e]\<rparr>)
          | Inr PyNone \<Rightarrow>
              (Exited 1, w\<lparr>logged := logged w @ [LogError msg_empty_file, LogError msg_copy_example]\<rparr>)
          | Inr config_raw \<Rightarrow>
             (case py_dict config_raw of
                Inl e \<Rightarrow>
                  (Exited 1, w\<lparr>logged := logged w @ [LogError msg_load_error, LogErrorException e]\<rparr>)
              | Inr config_dict0 \<Rightarrow>
                 (case normalize env config_dict0 of
                    Inl e \<Rightarrow> (Raised e, w)
                  | Inr config_dict \<Rightarrow>
                     (if \<not> bypass_validation then
                        (case ServerSettings env config_dict of
                           Inr config \<Rightarrow>
                             (Returned config,
                              w\<lparr>CONFIG := Some config, logged := logged w @ [LogDebug msg_loaded]\<rparr>)
                         | Inl (ValidationError msgs txt) \<Rightarrow> on_validation_error msgs txt w
                         | Inl e \<Rightarrow> (Raised e, w))
                      else
                        (case unverified env config_dict of
                           Inr config \<Rightarrow>
                             (Returned config,
                              w\<lparr>CONFIG := Some config,
                                logged := logged w @ [LogDebug msg_loaded_bypassed]\<rparr>)
                         | Inl e \<Rightarrow> (Raised e, w)))))))"

section \<open>Config and GetServerPort\<close>

definition Config :: "world \<Rightarrow> py_error + settings" where
  "Config w = (case CONFIG w of None \<Rightarrow> Inl (AssertionError msg_not_initialized) | Some c \<Rightarrow> Inr c)"

definition GetServerPort :: "env \<Rightarrow> world \<Rightarrow> pyval" where
  \<comment> \<open>every exception of the \<^verbatim>\<open>try\<close> body is caught and answered with 7000\<close>
  "GetServerPort env w =
     (case config_yaml w of
        None \<Rightarrow> PyInt 7000
      | Some bytes \<Rightarrow>
         (case bind_err (bind_err (bind_err (read_text env bytes) (yaml_load env)) py_dict)
                 (\<lambda>config_dict. getitem2 config_dict ''server'' ''port'') of
            Inl e \<Rightarrow> PyInt 7000
          | Inr port \<Rightarrow> port))"

section \<open>Text operations and the four line patterns of SaveConfig\<close>

fun readlines :: "string \<Rightarrow> string list" where
  \<comment> \<open>\<^verbatim>\<open>file.readlines()\<close>: every line keeps its newline, the last line may lack one\<close>
  "readlines [] = []"
| "readlines (c # cs) =
     (if c = newline then [c] # readlines cs
      else (case readlines cs of [] \<Rightarrow> [[c]] | l # ls \<Rightarrow> (c # l) # ls))"

function py_replace :: "string \<Rightarrow> string \<Rightarrow> string \<Rightarrow> string" where
  \<comment> \<open>\<^verbatim>\<open>s.replace(old, new)\<close>: every occurrence of \<open>old\<close>, found from left to right\<close>
  "py_replace old new s =
     (if old = [] then new @ concat (map (\<lambda>ch. ch @ new) (utf8_chars s))
      else if s = [] then []
      else if take (length old) s = old then new @ py_replace old new (drop (length old) s)
      else hd s # py_replace old new (tl s))"
  by pat_completeness auto
termination
proof (relation "measure (\<lambda>(old, new, s). length s)")
  show "wf (measure (\<lambda>(old, new, s). length s))" by simp
next
  fix old new s :: string
  assume "old \<noteq> []" and "s \<noteq> []" and "take (length old) s = old"
  then show "((old, new, drop (length old) s), (old, new, s)) \<in> measure (\<lambda>(old, new, s). length s)"
    by (cases old) auto
next
  fix old new s :: string
  assume "s \<noteq> []"
  then show "((old, new, tl s), (old, new, s)) \<in> measure (\<lambda>(old, new, s). length s)"
    by (cases s) auto
qed

declare py_replace.simps [simp del]

definition strip_quotes :: "string \<Rightarrow> string" where
  \<comment> \<open>\<^verbatim>\<open>key.replace('"', '').replace('\'', '')\<close>\<close>
  "strip_quotes key = py_replace [squote] [] (py_replace [dquote] [] key)"

definition join :: "string \<Rightarrow> string list \<Rightarrow> string" where
  \<comment> \<open>\<^verbatim>\<open>sep.join(items)\<close>\<close>
  "join sep items = (case items of [] \<Rightarrow> [] | x # xs \<Rightarrow> x @ concat (map (\<lambda>y. sep @ y) xs))"

text \<open>
  The patterns are used with \<^verbatim>\<open>re.match\<close>, so \<^verbatim>\<open>.\<close> is any character but a
  newline, \<^verbatim>\<open>$\<close> is the end of the text or the place before a newline that ends the
  text, and \<^verbatim>\<open>\s\<close> is a Unicode white space character. \<open>lazy_dot ok q acc s\<close> is the
  search made by \<^verbatim>\<open>.*?\<close> followed by the closing quote \<open>q\<close> and by a rest of the pattern
  that accepts exactly the texts \<open>ok\<close> accepts: the shortest text before a closing quote
  wins.
\<close>

fun lazy_dot :: "(string \<Rightarrow> bool) \<Rightarrow> char \<Rightarrow> string \<Rightarrow> string \<Rightarrow> string option" where
  "lazy_dot ok q acc [] = None"
| "lazy_dot ok q acc (c # cs) =
     (if c = q \<and> ok cs then Some (rev acc)
      else if c = newline then None
      else lazy_dot ok q (c # acc) cs)"

definition quoted_key :: "nat \<Rightarrow> (string \<Rightarrow> bool) \<Rightarrow> string \<Rightarrow> string option" where
  \<comment> \<open>\<^verbatim>\<open>^ {n}(?P<key>\'.*?\'|\".*?\")\<close> followed by \<open>ok\<close>: the text of the group \<^verbatim>\<open>key\<close>\<close>
  "quoted_key n ok line =
     (if take n line = replicate n CHR '' '' then
        (case drop n line of
           [] \<Rightarrow> None
         | q # cs \<Rightarrow>
            (if q = squote \<or> q = dquote
             then map_option (\<lambda>x. q # x @ [q]) (lazy_dot ok q [] cs)
             else None))
      else None)"

definition whitespace :: "string list" where
  \<comment> \<open>the UTF-8 encodings of the characters \<^verbatim>\<open>\s\<close> matches\<close>
  "whitespace =
     [[CHR 0x09], [CHR 0x0A], [CHR 0x0B], [CHR 0x0C], [CHR 0x0D], [CHR 0x1C], [CHR 0x1D],
      [CHR 0x1E], [CHR 0x1F], [CHR 0x20], [CHR 0xC2, CHR 0x85], [CHR 0xC2, CHR 0xA0],
      [CHR 0xE1, CHR 0x9A, CHR 0x80], [CHR 0xE2, CHR 0x80, CHR 0x80],
      [CHR 0xE2, CHR 0x80, CHR 0x81], [CHR 0xE2, CHR 0x80, CHR 0x82],
      [CHR 0xE2, CHR 0x80, CHR 0x83], [CHR 0xE2, CHR 0x80, CHR 0x84],
      [CHR 0xE2, CHR 0x80, CHR 0x85], [CHR 0xE2, CHR 0x80, CHR 0x86],
      [CHR 0xE2, CHR 0x80, CHR 0x87], [CHR 0xE2, CHR 0x80, CHR 0x88],
      [CHR 0xE2, CHR 0x80, CHR 0x89], [CHR 0xE2, CHR 0x80, CHR 0x8A],
      [CHR 0xE2, CHR 0x80, CHR 0xA8], [CHR 0xE2, CHR 0x80, CHR 0xA9],
      [CHR 0xE2, CHR 0x80, CHR 0xAF], [CHR 0xE2, CHR 0x81, CHR 0x9F],
      [CHR 0xE3, CHR 0x80, CHR 0x80]]"

function drop_space :: "string \<Rightarrow> string" where
  \<comment> \<open>the text after the longest run of white space at its start\<close>
  "drop_space s =
     (case find (\<lambda>p. p \<noteq> [] \<and> take (length p) s = p) whitespace of
        None \<Rightarrow> s
      | Some p \<Rightarrow> drop_space (drop (length p) s))"
  by pat_completeness auto
termination
proof (relation "measure length")
  show "wf (measure length)" by simp
next
  fix s p :: string
  assume "find (\<lambda>p. p \<noteq> [] \<and> take (length p) s = p) whitespace = Some p"
  then have "p \<noteq> []" and "take (length p) s = p"
    by (auto simp: find_Some_iff)
  then show "(drop (length p) s, s) \<in> measure length"
    by (cases p; cases s) auto
qed

declare drop_space.simps [simp del]

definition comment_tail :: "string \<Rightarrow> bool" where
  \<comment> \<open>\<^verbatim>\<open>\s*(#.*)?$\<close>\<close>
  "comment_tail r =
     (case drop_space r of
        [] \<Rightarrow> True
      | c # cs \<Rightarrow> c = CHR ''#'' \<and> newline \<notin> set (butlast cs))"

definition parent_tail :: "string \<Rightarrow> bool" where
  \<comment> \<open>\<^verbatim>\<open>: \{$\<close>\<close>
  "parent_tail r \<longleftrightarrow> r = '': {'' \<or> r = '': {'' @ [newline]"

definition list_start_tail :: "string \<Rightarrow> bool" where
  \<comment> \<open>\<^verbatim>\<open>: \[\s*(#.*)?$\<close>\<close>
  "list_start_tail r \<longleftrightarrow> take 3 r = '': ['' \<and> comment_tail (drop 3 r)"

definition chop_newline :: "string \<Rightarrow> string" where
  "chop_newline r = (if r \<noteq> [] \<and> last r = newline then butlast r else r)"

definition quoted :: "char \<Rightarrow> string \<Rightarrow> bool" where
  \<comment> \<open>\<^verbatim>\<open>'.*?'\<close> as the whole of a text\<close>
  "quoted q v \<longleftrightarrow> 2 \<le> length v \<and> hd v = q \<and> last v = q \<and> newline \<notin> set (butlast (tl v))"

definition value_token :: "string \<Rightarrow> bool" where
  \<comment> \<open>\<^verbatim>\<open>[0-9\.]+|true|false|null|\'.*?\'|\".*?\"\<close> as the whole of a text\<close>
  "value_token v \<longleftrightarrow>
     (v \<noteq> [] \<and> (\<forall>c \<in> set v. c \<in> set ''0123456789.''))
     \<or> v = ''true'' \<or> v = ''false'' \<or> v = ''null'' \<or> quoted squote v \<or> quoted dquote v"

definition key_value_tail :: "string \<Rightarrow> bool" where
  \<comment> \<open>\<^verbatim>\<open>: (?P<value>...),$\<close>\<close>
  "key_value_tail r \<longleftrightarrow>
     take 2 r = '': '' \<and>
     (let b = chop_newline (drop 2 r)
      in b \<noteq> [] \<and> last b = CHR '','' \<and> value_token (butlast b))"

definition parent_key_match :: "string \<Rightarrow> string option" where
  "parent_key_match line = quoted_key 4 parent_tail line"

definition list_start_match :: "string \<Rightarrow> string option" where
  "list_start_match line = quoted_key 8 list_start_tail line"

definition list_end_match :: "string \<Rightarrow> bool" where
  \<comment> \<open>\<^verbatim>\<open>^ {8}\],\s*(#.*)?$\<close>\<close>
  "list_end_match line \<longleftrightarrow> take 10 line = ''        ],'' \<and> comment_tail (drop 10 line)"

definition key_value_match :: "string \<Rightarrow> string option" where
  "key_value_match line = quoted_key 8 key_value_tail line"

section \<open>SaveConfig\<close>

fun py_str :: "env \<Rightarrow> pyval \<Rightarrow> string" where
  \<comment> \<open>\<^verbatim>\<open>str(v)\<close>, which is also what an f-string puts for \<^verbatim>\<open>{v}\<close>\<close>
  "py_str env PyNone = ''None''"
| "py_str env (PyBool b) = (if b then ''True'' else ''False'')"
| "py_str env (PyInt i) = str_int i"
| "py_str env (PyFloat r) = r"
| "py_str env (PyStr t) = t"
| "py_str env (PyPath t) = t"
| "py_str env (PyList xs) = container_str env (PyList xs)"
| "py_str env (PyDict kvs) = container_str env (PyDict kvs)"
| "py_str env (PySub v) = py_str env v"

definition strip_prefix :: "env \<Rightarrow> settings \<Rightarrow> py_error + settings" where
  \<comment> \<open>the block of \<^verbatim>\<open>SaveConfig\<close> for \<^verbatim>\<open>'Linux-Docker'\<close>. The test
      \<^verbatim>\<open>config_dict['tv']['debug_mode_ts_path'] is Path\<close> compares the value with the class
      \<^verbatim>\<open>Path\<close> itself, which no field value is, so only \<^verbatim>\<open>type(...) is str\<close> decides\<close>
  "strip_prefix env config_dict =
     (if GetPlatformEnvironment env = ''Linux-Docker'' then
        (case config_dict ''capture'' of
           None \<Rightarrow> Inl KeyError
         | Some capture \<Rightarrow>
            (case capture ''upload_folder'' of
               None \<Rightarrow> Inl KeyError
             | Some folder \<Rightarrow>
                (let d1 = config_dict(''capture'' \<mapsto> capture(''upload_folder'' \<mapsto>
                            PyStr (py_replace DOCKER_PATH_PREFIX [] (py_str env folder))))
                 in case d1 ''tv'' of
                      None \<Rightarrow> Inl KeyError
                    | Some tv \<Rightarrow>
                       (case tv ''debug_mode_ts_path'' of
                          None \<Rightarrow> Inl KeyError
                        | Some (PyStr ts) \<Rightarrow>
                            Inr (d1(''tv'' \<mapsto> tv(''debug_mode_ts_path'' \<mapsto>
                                   PyStr (py_replace DOCKER_PATH_PREFIX [] ts))))
                        | Some _ \<Rightarrow> Inr d1))))
      else Inr config_dict)"

definition iter_strs :: "env \<Rightarrow> pyval \<Rightarrow> py_error + string list" where
  \<comment> \<open>\<^verbatim>\<open>[f"{item}" for item in value]\<close>: iterating a value that is not iterable raises
      \<^verbatim>\<open>TypeError\<close>, a string gives its characters and a mapping its keys\<close>
  "iter_strs env v =
     (case base v of
        PyList xs \<Rightarrow> Inr (map (py_str env) xs)
      | PyDict kvs \<Rightarrow> Inr (map (\<lambda>kv. py_str env (fst kv)) kvs)
      | PyStr t \<Rightarrow> Inr (utf8_chars t)
      | _ \<Rightarrow> Inl TypeError)"

definition list_block :: "string \<Rightarrow> string list \<Rightarrow> string" where
  \<comment> \<open>\<^verbatim>\<open>f"    '{list_key}': [\n{new_list}\n    ],\n"\<close> with \<^verbatim>\<open>new_list\<close> the items,
      each as \<^verbatim>\<open>f"        '{item}'"\<close>, joined by \<^verbatim>\<open>",\n"\<close>\<close>
  "list_block list_key items =
     ''    '' @ [squote] @ list_key @ [squote] @ '': ['' @ [newline]
       @ join ('','' @ [newline]) (map (\<lambda>item. ''        '' @ [squote] @ item @ [squote]) items)
       @ [newline] @ ''    ],'' @ [newline]"

definition endswith :: "string \<Rightarrow> string \<Rightarrow> bool" where
  "endswith s suffix \<longleftrightarrow> length suffix \<le> length s \<and> drop (length s - length suffix) s = suffix"

definition value_real :: "env \<Rightarrow> pyval \<Rightarrow> string" where
  \<comment> \<open>the text \<^verbatim>\<open>value_real\<close> of the source before its backslashes are doubled. The first
      test is \<^verbatim>\<open>type(value) is int or type(value) is float\<close>: an instance of a subclass
      fails it, and the tests \<^verbatim>\<open>is True\<close>, \<^verbatim>\<open>is False\<close>, \<^verbatim>\<open>is None\<close>, and is put between
      quotes\<close>
  "value_real env v =
     (case v of
        PyInt i \<Rightarrow> (let r = str_int i in if endswith r ''.0'' then take (length r - 2) r else r)
      | PyFloat r \<Rightarrow> (if endswith r ''.0'' then take (length r - 2) r else r)
      | PyBool b \<Rightarrow> (if b then ''true'' else ''false'')
      | PyNone \<Rightarrow> ''null''
      | _ \<Rightarrow> [squote] @ py_str env v @ [squote])"

text \<open>
  \<^verbatim>\<open>re.sub\<close> reads its replacement as a template: \<^verbatim>\<open>\\\<close> stands for one backslash
  and \<^verbatim>\<open>\g<key>\<close> for the text of the group \<^verbatim>\<open>key\<close>. \<open>expand_template key t\<close> is the
  text the template \<open>t\<close> stands for. The other escapes of the template language cannot
  occur in a template \<^verbatim>\<open>SaveConfig\<close> builds, since every backslash of the value has been
  doubled; the model answers them with \<open>ReError\<close>.
\<close>

function expand_template :: "string \<Rightarrow> string \<Rightarrow> py_error + string" where
  "expand_template key t =
     (case t of
        [] \<Rightarrow> Inr []
      | c # cs \<Rightarrow>
         (if c \<noteq> backslash then bind_err (expand_template key cs) (\<lambda>r. Inr (c # r))
          else (case cs of
                  [] \<Rightarrow> Inl ReError
                | d # ds \<Rightarrow>
                   (if d = backslash then bind_err (expand_template key ds) (\<lambda>r. Inr (backslash # r))
                    else if d = CHR ''g'' \<and> take 5 ds = ''<key>''
                    then bind_err (expand_template key (drop 5 ds)) (\<lambda>r. Inr (key @ r))
                    else Inl ReError))))"
  by pat_completeness auto
termination
  by (relation "measure (\<lambda>(key, t). length t)") auto

declare expand_template.simps [simp del]

definition line_end :: "string \<Rightarrow> string" where
  \<comment> \<open>what the pattern of a key-value line leaves unmatched: the newline that ends the line\<close>
  "line_end line = (if line \<noteq> [] \<and> last line = newline then [newline] else [])"

definition key_value_sub :: "string \<Rightarrow> string \<Rightarrow> string \<Rightarrow> py_error + string" where
  \<comment> \<open>\<^verbatim>\<open>re.sub(key_value_match_pattern, template, current_line)\<close> for a line the pattern
      matches with the group \<^verbatim>\<open>key\<close> as given: the match, which starts the line and ends
      before the newline, is replaced by the expanded template\<close>
  "key_value_sub key template current_line =
     bind_err (expand_template key template) (\<lambda>r. Inr (r @ line_end current_line))"

record save_state =
  new_lines :: "string list"
  current_parent_key :: string
  in_list :: bool
  list_key :: string

definition save_line :: "env \<Rightarrow> settings \<Rightarrow> save_state \<Rightarrow> string \<Rightarrow> py_error + save_state" where
  \<comment> \<open>the body of the loop \<^verbatim>\<open>for current_line in current_lines\<close>\<close>
  "save_line env config_dict st current_line =
     (case parent_key_match current_line of
        Some key \<Rightarrow>
          Inr (st\<lparr>current_parent_key := strip_quotes key,
                  new_lines := new_lines st @ [current_line]\<rparr>)
      | None \<Rightarrow>
         (case list_start_match current_line of
            Some key \<Rightarrow>
              (let st' = st\<lparr>list_key := strip_quotes key, in_list := True\<rparr>
               in case config_dict (current_parent_key st') of
                    None \<Rightarrow> Inl KeyError
                  | Some section \<Rightarrow>
                     (case section (list_key st') of
                        Some v \<Rightarrow>
                          bind_err (iter_strs env v) (\<lambda>items.
                            Inr (st'\<lparr>new_lines := new_lines st' @ [list_block (list_key st') items]\<rparr>))
                      | None \<Rightarrow> Inr (st'\<lparr>new_lines := new_lines st' @ [current_line]\<rparr>)))
          | None \<Rightarrow>
             (if list_end_match current_line then Inr (st\<lparr>in_list := False\<rparr>)
              else if in_list st then Inr st
              else
                (case key_value_match current_line of
                   Some key \<Rightarrow>
                     (case config_dict (current_parent_key st) of
                        None \<Rightarrow> Inl KeyError
                      | Some section \<Rightarrow>
                         (case section (strip_quotes key) of
                            Some v \<Rightarrow>
                              bind_err
                                (key_value_sub key
                                   (''        '' @ [backslash] @ ''g<key>: ''
                                      @ py_replace [backslash] [backslash, backslash] (value_real env v)
                                      @ '','')
                                   current_line)
                                (\<lambda>new_line. Inr (st\<lparr>new_lines := new_lines st @ [new_line]\<rparr>))
                          | None \<Rightarrow> Inr (st\<lparr>new_lines := new_lines st @ [current_line]\<rparr>)))
                 | None \<Rightarrow> Inr (st\<lparr>new_lines := new_lines st @ [current_line]\<rparr>)))))"

fun save_lines :: "env \<Rightarrow> settings \<Rightarrow> save_state \<Rightarrow> string list \<Rightarrow> py_error + save_state" where
  "save_lines env config_dict st [] = Inr st"
| "save_lines env config_dict st (current_line # current_lines) =
     (case save_line env config_dict st current_line of
        Inl e \<Rightarrow> Inl e
      | Inr st' \<Rightarrow> save_lines env config_dict st' current_lines)"

definition initial_state :: save_state where
  "initial_state = \<lparr>new_lines = [], current_parent_key = [], in_list = False, list_key = []\<rparr>"

definition SaveConfig :: "env \<Rightarrow> settings \<Rightarrow> world \<Rightarrow> unit outcome \<times> world" where
  \<comment> \<open>an exception leaves the function before the file is opened for writing\<close>
  "SaveConfig env config w =
     (case strip_prefix env config of
        Inl e \<Rightarrow> (Raised e, w)
      | Inr config_dict \<Rightarrow>
         (case config_yaml w of
            None \<Rightarrow> (Raised FileNotFoundError, w)
          | Some bytes \<Rightarrow>
             (case read_text env bytes of
                Inl e \<Rightarrow> (Raised e, w)
              | Inr text \<Rightarrow>
                 (case save_lines env config_dict initial_state (readlines text) of
                    Inl e \<Rightarrow> (Raised e, w)
                  | Inr st \<Rightarrow>
                     (Returned (),
                      w\<lparr>config_yaml := Some (write_text env (concat (new_lines st)))\<rparr>)))))"

fun element_lines :: "string list \<Rightarrow> string list" where
  \<comment> \<open>the lines between the key line and the closing line of a list block\<close>
  "element_lines [] = [[newline]]"
| "element_lines [item] = [''        '' @ [squote] @ item @ [squote] @ [newline]]"
| "element_lines (item # item' # items) =
     (''        '' @ [squote] @ item @ [squote] @ '','' @ [newline]) # element_lines (item' # items)"

definition list_block_lines :: "string \<Rightarrow> string list \<Rightarrow> string list" where
  \<comment> \<open>the lines of a list block as they are read back from the file\<close>
  "list_block_lines name items =
     (''    '' @ [squote] @ name @ [squote] @ '': ['' @ [newline])
       # element_lines items @ [''    ],'' @ [newline]]"

section \<open>Example inputs\<close>




definition linux_env :: env where
  "linux_env =
     \<lparr>GetPlatformEnvironment = ''Linux'', yaml_load = (\<lambda>t. Inl ParseError),
      ServerSettings = (\<lambda>d. Inl TypeError), construct = (\<lambda>n v. Inl TypeError),
      container_str = (\<lambda>v. []), decodable = (\<lambda>b. True), linesep = [newline]\<rparr>"

definition docker_env :: env where
  "docker_env =
     \<lparr>GetPlatformEnvironment = ''Linux-Docker'', yaml_load = (\<lambda>t. Inl ParseError),
      ServerSettings = (\<lambda>d. Inl TypeError), construct = (\<lambda>n v. Inl TypeError),
      container_str = (\<lambda>v. []), decodable = (\<lambda>b. True), linesep = [newline]\<rparr>"

definition rejecting_env :: "string list \<Rightarrow> env" where
  \<comment> \<open>a parser that accepts the file and a validating constructor that rejects the
      document with the given messages\<close>
  "rejecting_env msgs =
     \<lparr>GetPlatformEnvironment = ''Linux'',
      yaml_load = (\<lambda>t. Inr (PyDict [(PyStr ''server'', PyDict [(PyStr ''port'', PyInt 80)])])),
      ServerSettings = (\<lambda>d. Inl (ValidationError msgs ''validation errors for ServerSettings'')),
      construct = (\<lambda>n v. Inl TypeError), container_str = (\<lambda>v. []),
      decodable = (\<lambda>b. True), linesep = [newline]\<rparr>"

definition quoted_port_env :: env where
  \<comment> \<open>a parser that reads a file in which the port is written between quotes, and so
      gives a string for it\<close>
  "quoted_port_env =
     \<lparr>GetPlatformEnvironment = ''Linux'',
      yaml_load = (\<lambda>t. Inr (PyDict [(PyStr ''server'', PyDict [(PyStr ''port'', PyStr ''7000'')])])),
      ServerSettings = (\<lambda>d. Inl TypeError), construct = (\<lambda>n v. Inl TypeError),
      container_str = (\<lambda>v. []), decodable = (\<lambda>b. True), linesep = [newline]\<rparr>"

definition quoted_port_text :: string where
  "quoted_port_text = ''server: {port: '' @ [squote] @ ''7000'' @ [squote] @ ''}''"

definition section_line :: "string \<Rightarrow> string" where
  "section_line name = ''    '' @ [squote] @ name @ [squote] @ '': {'' @ [newline]"

definition field_line :: "string \<Rightarrow> string \<Rightarrow> string" where
  "field_line name token =
     ''        '' @ [squote] @ name @ [squote] @ '': '' @ token @ '','' @ [newline]"

definition file_world :: "string \<Rightarrow> world" where
  "file_world text = \<lparr>CONFIG = None, config_yaml = Some text, logged = []\<rparr>"

definition settings1 :: settings where
  "settings1 = [''general'' \<mapsto> [''debug'' \<mapsto> PyBool True, ''port'' \<mapsto> PyInt 7000]]"

definition text1 :: string where
  "text1 =
     ''{'' @ [newline] @ section_line ''general'' @ ''        # debug mode'' @ [newline]
       @ field_line ''debug'' ''false'' @ field_line ''port'' ''7000''
       @ ''    },'' @ [newline] @ ''}'' @ [newline]"

definition text1_saved :: string where
  "text1_saved =
     ''{'' @ [newline] @ section_line ''general'' @ ''        # debug mode'' @ [newline]
       @ field_line ''debug'' ''true'' @ field_line ''port'' ''7000''
       @ ''    },'' @ [newline] @ ''}'' @ [newline]"

definition settings7 :: settings where
  \<comment> \<open>a document after a load without validation: the interval is the \<^verbatim>\<open>ScalarFloat\<close> of
      the YAML parser, an instance of a subclass of \<^verbatim>\<open>float\<close>\<close>
  "settings7 = [''general'' \<mapsto> [''program_update_interval'' \<mapsto> PySub (PyFloat ''5.0'')]]"

definition text7 :: string where
  "text7 = section_line ''general'' @ field_line ''program_update_interval'' ''5.0''"

definition text8 :: string where
  \<comment> \<open>a file with the line ends of Windows\<close>
  "text8 = ''# settings'' @ [carriage_return, newline] @ ''{'' @ [carriage_return, newline]"

definition settings2 :: settings where
  "settings2 = [''capture'' \<mapsto> [''upload_folder'' \<mapsto> PyStr (''C:'' @ [backslash] @ ''caps'')]]"

definition text2 :: string where
  "text2 = section_line ''capture'' @ field_line ''upload_folder'' ([squote] @ ''old'' @ [squote])"

definition settings3 :: settings where
  "settings3 = [''general'' \<mapsto> [''xs'' \<mapsto> PyList [PyStr ''b'']]]"

definition text3 :: string where
  "text3 =
     section_line ''general'' @ ''        '' @ [squote] @ ''xs'' @ [squote] @ '': ['' @ [newline]
       @ ''            # keep me'' @ [newline]
       @ ''            '' @ [squote] @ ''a'' @ [squote] @ '','' @ [newline]
       @ ''        ],'' @ [newline] @ ''    },'' @ [newline]"

definition settings4 :: settings where
  "settings4 =
     [''general'' \<mapsto> [''xs'' \<mapsto> PyList [PyStr (''k'' @ [squote] @ '': '' @ [squote] @ ''v''),
                                            PyStr ''b'']]]"

definition text4 :: string where
  "text4 =
     section_line ''general'' @ ''        '' @ [squote] @ ''xs'' @ [squote] @ '': ['' @ [newline]
       @ ''        ],'' @ [newline]"

definition settings5 :: settings where
  "settings5 = [''general'' \<mapsto> [''xs'' \<mapsto> PyList [PyStr ''c''], ''k'' \<mapsto> PyStr ''new'']]"

definition load_env :: env where
  \<comment> \<open>a parser and a validating constructor that accept the file\<close>
  "load_env =
     \<lparr>GetPlatformEnvironment = ''Linux'',
      yaml_load = (\<lambda>t. Inr (PyDict [(PyStr ''general'', PyDict [(PyStr ''debug'', PyBool True),
                                                                (PyStr ''port'', PyInt 7000)])])),
      ServerSettings = (\<lambda>d. Inr settings1), construct = (\<lambda>n v. Inl TypeError),
      container_str = (\<lambda>v. []), decodable = (\<lambda>b. True), linesep = [newline]\<rparr>"

definition settings6 :: settings where
  \<comment> \<open>a document as the validating constructor builds it inside the container: both paths
      are \<^verbatim>\<open>pathlib.Path\<close> objects and carry the prefix\<close>
  "settings6 =
     [''capture'' \<mapsto> [''upload_folder'' \<mapsto> PyPath ''/host-rootfs/mnt/caps''],
      ''tv'' \<mapsto> [''debug_mode_ts_path'' \<mapsto> PyPath ''/host-rootfs/mnt/test.ts'']]"

definition text6 :: string where
  "text6 =
     section_line ''capture'' @ field_line ''upload_folder'' ([squote] @ ''/mnt/caps'' @ [squote])
       @ ''    },'' @ [newline]
       @ section_line ''tv''
       @ field_line ''debug_mode_ts_path'' ([squote] @ ''/mnt/test.ts'' @ [squote])
       @ ''    },'' @ [newline]"

definition text6_saved :: string where
  "text6_saved =
     section_line ''capture'' @ field_line ''upload_folder'' ([squote] @ ''/mnt/caps'' @ [squote])
       @ ''    },'' @ [newline]
       @ section_line ''tv''
       @ field_line ''debug_mode_ts_path'' ([squote] @ ''/host-rootfs/mnt/test.ts'' @ [squote])
       @ ''    },'' @ [newline]"

section \<open>Properties of the port validator\<close>




lemma message_lengths:
  "length msg_port_range = 207 \<and> length (split_on newline msg_port_range) = 2
   \<and> length frag_port = 10 \<and> length frag_in_use = 169 \<and> length frag_check = 55
   \<and> length msg_invalid_settings = 69 \<and> length msg_see_errors = 114
   \<and> length domain_marker = 3 \<and> length msg_no_file = 90 \<and> length msg_copy_example = 114
   \<and> length msg_empty_file = 72 \<and> length msg_load_error = 105
   \<and> length msg_already_loaded = 52 \<and> length msg_not_initialized = 63"
  by (simp add: msg_port_range_def frag_port_def frag_in_use_def frag_check_def
      msg_invalid_settings_def msg_see_errors_def domain_marker_def msg_no_file_def
      msg_copy_example_def msg_empty_file_def msg_load_error_def msg_already_loaded_def
      msg_not_initialized_def)










section \<open>Properties of LoadConfig\<close>

lemma log_custom_errors_eq:
  "log_custom_errors msgs c lg =
     (c \<or> (\<exists>m \<in> set msgs. contains domain_marker m),
      lg @ map LogError (concat (map (split_on newline) (filter (contains domain_marker) msgs))))"
  by (induction msgs arbitrary: c lg) auto

lemma on_validation_error_eq:
  "on_validation_error msgs t w =
     (Exited 1,
      w\<lparr>logged := logged w @
          (if \<exists>m \<in> set msgs. contains domain_marker m
           then map LogError (concat (map (split_on newline) (filter (contains domain_marker) msgs)))
           else [LogError msg_invalid_settings, LogError msg_see_errors, LogError t])\<rparr>)"
proof (cases "\<exists>m \<in> set msgs. contains domain_marker m")
  case True
  then show ?thesis
    by (simp add: on_validation_error_def log_custom_errors_eq)
next
  case False
  then have "filter (contains domain_marker) msgs = []"
    by (simp add: filter_empty_conv)
  with False show ?thesis
    by (simp add: on_validation_error_def log_custom_errors_eq)
qed

lemma split_on_not_empty: "split_on sep s \<noteq> []"
  by (induction s) (auto split: list.splits)

lemma split_on_join: "join [sep] (split_on sep s) = s"
proof (induction s)
  case Nil
  show ?case by (simp add: join_def)
next
  case (Cons c s)
  obtain l ls where l: "split_on sep s = l # ls"
    using split_on_not_empty [of sep s] by (cases "split_on sep s") auto
  with Cons show ?case by (simp add: join_def)
qed

lemma split_on_no_separator: "\<forall>seg \<in> set (split_on sep s). sep \<notin> set seg"
proof (induction s)
  case Nil
  show ?case by simp
next
  case (Cons c s)
  obtain l ls where l: "split_on sep s = l # ls"
    using split_on_not_empty [of sep s] by (cases "split_on sep s") auto
  with Cons show ?case by auto
qed

text \<open>
  Claim C6. When the validating constructor raises \<open>ValidationError\<close> during
  \<open>LoadConfig\<close>, the process exits with code 1. If at least one message of the error
  list contains the marker, the lines logged are exactly the newline-separated segments
  of the messages that contain it, in order, each at error level, and nothing is logged
  for the other messages; if no message contains the marker, the two general messages
  and the text of the error are logged. The segments of a message are the texts without
  a newline that give the message back when they are joined by newlines.
\<close>

theorem LoadConfig_validation_failure:
  assumes "CONFIG w = None" and "config_yaml w = Some bytes"
    and "read_text env bytes = Inr text"
    and "yaml_load env text = Inr config_raw" and "config_raw \<noteq> PyNone"
    and "py_dict config_raw = Inr d0" and "normalize env d0 = Inr d"
    and "ServerSettings env d = Inl (ValidationError msgs txt)"
  shows "LoadConfig env False w =
     (Exited 1,
      w\<lparr>logged := logged w @
          (if \<exists>m \<in> set msgs. contains domain_marker m
           then map LogError (concat (map (split_on newline) (filter (contains domain_marker) msgs)))
           else [LogError msg_invalid_settings, LogError msg_see_errors, LogError txt])\<rparr>)
    \<and> (\<forall>m \<in> set msgs. join [newline] (split_on newline m) = m
          \<and> (\<forall>seg \<in> set (split_on newline m). newline \<notin> set seg))"
proof -
  have "LoadConfig env False w = on_validation_error msgs txt w"
    using assms by (cases config_raw) (simp_all add: LoadConfig_def bind_err_def)
  then have a: "LoadConfig env False w =
     (Exited 1,
      w\<lparr>logged := logged w @
          (if \<exists>m \<in> set msgs. contains domain_marker m
           then map LogError (concat (map (split_on newline) (filter (contains domain_marker) msgs)))
           else [LogError msg_invalid_settings, LogError msg_see_errors, LogError txt])\<rparr>)"
    by (simp only: on_validation_error_eq)
  have b: "\<forall>m \<in> set msgs. join [newline] (split_on newline m) = m
          \<and> (\<forall>seg \<in> set (split_on newline m). newline \<notin> set seg)"
    using split_on_join split_on_no_separator by blast
  from a b show ?thesis by (rule conjI)
qed

lemma universal_newlines_plain:
  "carriage_return \<notin> set s \<Longrightarrow> universal_newlines False s = s"
  by (induction s) auto

lemma write_text_plain: "linesep env = [newline] \<Longrightarrow> write_text env s = s"
  by (induction s) (auto simp: write_text_def)

lemma write_text_append: "write_text env (a @ b) = write_text env a @ write_text env b"
  by (simp add: write_text_def)

theorem LoadConfig_validation_failure_witness:
  "LoadConfig (rejecting_env [''field required'', msg_port_range]) False
       \<lparr>CONFIG = None, config_yaml = Some ''server: {port: 80}'', logged = []\<rparr>
     = (Exited 1,
        \<lparr>CONFIG = None, config_yaml = Some ''server: {port: 80}'',
         logged = [LogError (take 81 msg_port_range), LogError (drop 82 msg_port_range)]\<rparr>)
   \<and> msg_port_range ! 81 = newline
   \<and> LoadConfig (rejecting_env [''field required'', ''value is not a valid integer'']) False
       \<lparr>CONFIG = None, config_yaml = Some ''server: {port: 80}'', logged = []\<rparr>
     = (Exited 1,
        \<lparr>CONFIG = None, config_yaml = Some ''server: {port: 80}'',
         logged = [LogError msg_invalid_settings, LogError msg_see_errors,
                   LogError ''validation errors for ServerSettings'']\<rparr>)"
proof -
  let ?raw = "PyDict [(PyStr ''server'', PyDict [(PyStr ''port'', PyInt 80)])]"
  let ?d = "[(PyStr ''server'', PyDict [(PyStr ''port'', PyInt 80)])]"
  let ?w = "\<lparr>CONFIG = None, config_yaml = Some ''server: {port: 80}'', logged = []\<rparr>"
  have r: "read_text (rejecting_env msgs) ''server: {port: 80}'' = Inr ''server: {port: 80}''" for msgs
    by (simp add: read_text_def rejecting_env_def)
  have y: "yaml_load (rejecting_env msgs) ''server: {port: 80}'' = Inr ?raw" for msgs
    by (simp add: rejecting_env_def)
  have n: "normalize (rejecting_env msgs) ?d = Inr ?d" for msgs
    by (simp add: normalize_def normalize_body_def step_err_def bind_err_def getitem2_def
        dict_get_def)
  have p: "py_dict ?raw = Inr ?d"
    by (simp add: py_dict_def)
  have v: "ServerSettings (rejecting_env msgs) ?d
             = Inl (ValidationError msgs ''validation errors for ServerSettings'')" for msgs
    by (simp add: rejecting_env_def)
  have m: "contains domain_marker msg_port_range"
    by (simp add: domain_marker_def msg_port_range_def)
  have f: "\<not> contains domain_marker ''field required''"
    "\<not> contains domain_marker ''value is not a valid integer''"
    by (simp_all add: domain_marker_def)
  have s: "split_on newline msg_port_range = [take 81 msg_port_range, drop 82 msg_port_range]"
    by (simp add: msg_port_range_def)
  have i: "msg_port_range ! 81 = newline"
    by (simp add: msg_port_range_def)
  have a: "LoadConfig (rejecting_env [''field required'', msg_port_range]) False ?w
      = (Exited 1, ?w\<lparr>logged := [LogError (take 81 msg_port_range),
                                   LogError (drop 82 msg_port_range)]\<rparr>)"
    using LoadConfig_validation_failure [of ?w "''server: {port: 80}''"
        "rejecting_env [''field required'', msg_port_range]" "''server: {port: 80}''" ?raw ?d ?d
        "[''field required'', msg_port_range]" "''validation errors for ServerSettings''",
        OF _ _ r y _ p n v] m f s
    by simp
  have b: "LoadConfig (rejecting_env [''field required'', ''value is not a valid integer'']) False ?w
      = (Exited 1, ?w\<lparr>logged := [LogError msg_invalid_settings, LogError msg_see_errors,
                           LogError ''validation errors for ServerSettings'']\<rparr>)"
    using LoadConfig_validation_failure [of ?w "''server: {port: 80}''"
        "rejecting_env [''field required'', ''value is not a valid integer'']"
        "''server: {port: 80}''" ?raw ?d ?d
        "[''field required'', ''value is not a valid integer'']"
        "''validation errors for ServerSettings''", OF _ _ r y _ p n v] f
    by simp
  from a i b show ?thesis by simp
qed

section \<open>Properties of GetServerPort\<close>

lemma GetServerPort_default:
  "(config_yaml w = None \<longrightarrow> GetServerPort env w = PyInt 7000)
   \<and> (\<forall>bytes e. config_yaml w = Some bytes \<and> read_text env bytes = Inl e \<longrightarrow>
          GetServerPort env w = PyInt 7000)
   \<and> (\<forall>bytes text e. config_yaml w = Some bytes \<and> read_text env bytes = Inr text
          \<and> yaml_load env text = Inl e \<longrightarrow> GetServerPort env w = PyInt 7000)
   \<and> (\<forall>bytes text raw e. config_yaml w = Some bytes \<and> read_text env bytes = Inr text
          \<and> yaml_load env text = Inr raw \<and> py_dict raw = Inl e
          \<longrightarrow> GetServerPort env w = PyInt 7000)
   \<and> (\<forall>bytes text raw d. config_yaml w = Some bytes \<and> read_text env bytes = Inr text
          \<and> yaml_load env text = Inr raw \<and> py_dict raw = Inr d
          \<and> dict_find d (PyStr ''server'') = None \<longrightarrow> GetServerPort env w = PyInt 7000)
   \<and> (\<forall>bytes text raw d sec m. config_yaml w = Some bytes \<and> read_text env bytes = Inr text
          \<and> yaml_load env text = Inr raw \<and> py_dict raw = Inr d
          \<and> dict_find d (PyStr ''server'') = Some sec \<and> base sec = PyDict m
          \<and> dict_find m (PyStr ''port'') = None \<longrightarrow> GetServerPort env w = PyInt 7000)
   \<and> (\<forall>bytes text raw d sec m v. config_yaml w = Some bytes \<and> read_text env bytes = Inr text
          \<and> yaml_load env text = Inr raw \<and> py_dict raw = Inr d
          \<and> dict_find d (PyStr ''server'') = Some sec \<and> base sec = PyDict m
          \<and> dict_find m (PyStr ''port'') = Some v \<longrightarrow> GetServerPort env w = v)"
  by (simp add: GetServerPort_def bind_err_def getitem2_def getitem_def dict_get_def)

text \<open>
  Claim C8 does not hold on the code. \<open>GetServerPort\<close> answers 7000 for a missing file,
  for a file that cannot be read or parsed and for a missing key, but it returns what the
  file holds at \<^verbatim>\<open>server.port\<close> without a look at its type. For a file in which the port
  is written between quotes it returns a string, where its annotation and its docstring
  promise an integer.
\<close>

theorem GetServerPort_returns_str:
  "GetServerPort quoted_port_env
       \<lparr>CONFIG = None, config_yaml = Some quoted_port_text, logged = []\<rparr>
     = PyStr ''7000''
   \<and> GetServerPort quoted_port_env \<lparr>CONFIG = None, config_yaml = None, logged = []\<rparr>
     = PyInt 7000"
  by (simp add: GetServerPort_def quoted_port_env_def read_text_def bind_err_def py_dict_def
      getitem2_def getitem_def dict_get_def)

section \<open>Properties of the text operations\<close>

lemma lazy_dot_sound:
  "lazy_dot ok q acc s = Some x \<Longrightarrow>
     \<exists>pre r. s = pre @ q # r \<and> x = rev acc @ pre \<and> ok r \<and> newline \<notin> set pre"
proof (induction s arbitrary: acc)
  case Nil
  then show ?case by simp
next
  case (Cons c cs)
  show ?case
  proof (cases "c = q \<and> ok cs")
    case True
    with Cons.prems have "x = rev acc" by simp
    with True show ?thesis by fastforce
  next
    case False
    with Cons.prems have nl: "c \<noteq> newline" and rec: "lazy_dot ok q (c # acc) cs = Some x"
      by (auto split: if_splits)
    from Cons.IH [OF rec] obtain pre r where
      "cs = pre @ q # r" "x = rev (c # acc) @ pre" "ok r" "newline \<notin> set pre" by blast
    with nl have "c # cs = (c # pre) @ q # r \<and> x = rev acc @ (c # pre) \<and> ok r \<and> newline \<notin> set (c # pre)"
      by simp
    then show ?thesis by blast
  qed
qed

lemma quoted_key_sound:
  assumes "quoted_key n ok line = Some key"
  shows "\<exists>q x r. (q = squote \<or> q = dquote) \<and> key = q # x @ [q]
            \<and> line = replicate n CHR '' '' @ key @ r \<and> ok r \<and> newline \<notin> set x"
proof -
  from assms have t: "take n line = replicate n CHR '' ''"
    by (auto simp: quoted_key_def split: if_splits)
  from assms t obtain q cs where d: "drop n line = q # cs" and q: "q = squote \<or> q = dquote"
    and m: "map_option (\<lambda>x. q # x @ [q]) (lazy_dot ok q [] cs) = Some key"
    by (auto simp: quoted_key_def split: list.splits if_splits)
  from m obtain x where l: "lazy_dot ok q [] cs = Some x" and k: "key = q # x @ [q]"
    by auto
  from lazy_dot_sound [OF l] obtain pre r where
    p: "cs = pre @ q # r" "x = pre" "ok r" "newline \<notin> set pre" by auto
  have "line = take n line @ drop n line" by simp
  with t d p k have "line = replicate n CHR '' '' @ key @ r" by simp
  with q k p show ?thesis by blast
qed

lemma quoted_key_8_not_4:
  assumes "quoted_key 8 ok line = Some key"
  shows "quoted_key 4 ok' line = None"
proof -
  from quoted_key_sound [OF assms] obtain r where "line = replicate 8 CHR '' '' @ key @ r"
    by blast
  then obtain r' where "line = ''        '' @ r'"
    by (simp add: numeral_eq_Suc)
  then show ?thesis
    by (simp add: quoted_key_def)
qed

lemma key_value_not_list_end:
  assumes "key_value_match line = Some key"
  shows "\<not> list_end_match line"
proof -
  from quoted_key_sound [OF assms [unfolded key_value_match_def]] obtain q x r where
    "q = squote \<or> q = dquote" "key = q # x @ [q]" "line = replicate 8 CHR '' '' @ key @ r"
    by blast
  then have "line = ''        '' @ q # x @ [q] @ r \<and> (q = squote \<or> q = dquote)"
    by (simp add: numeral_eq_Suc)
  then show ?thesis
    by (auto simp: list_end_match_def)
qed

lemma py_replace_delete_char: "py_replace [c] [] s = filter (\<lambda>x. x \<noteq> c) s"
proof (induction s)
  case Nil
  show ?case by (simp add: py_replace.simps)
next
  case (Cons a s)
  then show ?case
    by (subst py_replace.simps) simp
qed

lemma strip_quotes_eq: "strip_quotes key = filter (\<lambda>x. x \<noteq> squote \<and> x \<noteq> dquote) key"
  by (simp add: strip_quotes_def py_replace_delete_char conj_commute)

lemma expand_template_doubled:
  "expand_template key (py_replace [backslash] [backslash, backslash] v @ t)
     = bind_err (expand_template key t) (\<lambda>r. Inr (v @ r))"
proof (induction v)
  case Nil
  show ?case
    by (simp add: py_replace.simps [of _ _ "[]"] bind_err_def split: sum.splits)
next
  case (Cons c v)
  show ?case
  proof (cases "c = backslash")
    case True
    have "py_replace [backslash] [backslash, backslash] (c # v)
            = backslash # backslash # py_replace [backslash] [backslash, backslash] v"
      using True by (subst py_replace.simps) simp
    then show ?thesis
      using True Cons.IH
      by (subst expand_template.simps) (simp add: bind_err_def split: sum.splits)
  next
    case False
    have "py_replace [backslash] [backslash, backslash] (c # v)
            = c # py_replace [backslash] [backslash, backslash] v"
      using False by (subst py_replace.simps) simp
    then show ?thesis
      using False Cons.IH
      by (subst expand_template.simps) (simp add: bind_err_def split: sum.splits)
  qed
qed

lemma expand_template_plain:
  "backslash \<notin> set t \<Longrightarrow> expand_template key t = Inr t"
proof (induction t)
  case Nil
  show ?case by (subst expand_template.simps) simp
next
  case (Cons c t)
  then show ?case by (subst expand_template.simps) (auto simp: bind_err_def)
qed

lemma expand_template_key_value:
  "expand_template key (''        '' @ [backslash] @ ''g<key>: ''
       @ py_replace [backslash] [backslash, backslash] v @ '','')
     = Inr (''        '' @ key @ '': '' @ v @ '','')"
proof -
  have tail: "expand_template key (py_replace [backslash] [backslash, backslash] v @ '','')
                = Inr (v @ '','')"
    by (simp add: expand_template_doubled expand_template_plain bind_err_def)
  have colon: "expand_template key ('': '' @ py_replace [backslash] [backslash, backslash] v @ '','')
                = Inr ('': '' @ v @ '','')"
    using tail by (simp add: expand_template.simps [of _ "_ # _"] bind_err_def)
  have grp: "expand_template key ([backslash] @ ''g<key>: ''
                 @ py_replace [backslash] [backslash, backslash] v @ '','')
                = Inr (key @ '': '' @ v @ '','')"
    using colon by (subst expand_template.simps) (simp add: bind_err_def)
  show ?thesis
    using grp by (simp add: expand_template.simps [of _ "CHR '' '' # _"] bind_err_def)
qed

section \<open>Properties of the loop of SaveConfig\<close>

lemma save_lines_append:
  "save_lines env cd st (xs @ ys) =
     (case save_lines env cd st xs of Inl e \<Rightarrow> Inl e | Inr st' \<Rightarrow> save_lines env cd st' ys)"
  by (induction xs arbitrary: st) (auto split: sum.splits)

lemma save_line_grows:
  assumes "save_line env cd st line = Inr st'"
  shows "\<exists>more. new_lines st' = new_lines st @ more"
proof -
  have "\<exists>more. new_lines st' = new_lines st @ more"
    if "st' = st\<lparr>new_lines := new_lines st @ more'\<rparr>" for more'
    using that by simp
  from assms show ?thesis
    by (auto simp: save_line_def bind_err_def Let_def
        split: option.splits sum.splits if_splits)
qed

lemma save_lines_grows:
  "save_lines env cd st ls = Inr st' \<Longrightarrow> \<exists>more. new_lines st' = new_lines st @ more"
proof (induction ls arbitrary: st)
  case Nil
  then show ?case by simp
next
  case (Cons l ls)
  from Cons.prems obtain st1 where s1: "save_line env cd st l = Inr st1"
    and s2: "save_lines env cd st1 ls = Inr st'"
    by (auto split: sum.splits)
  from save_line_grows [OF s1] obtain m1 where "new_lines st1 = new_lines st @ m1" by blast
  moreover from Cons.IH [OF s2] obtain m2 where "new_lines st' = new_lines st1 @ m2" by blast
  ultimately have "new_lines st' = new_lines st @ (m1 @ m2)" by simp
  then show ?case by blast
qed

lemma save_line_other:
  assumes "parent_key_match line = None" and "list_start_match line = None"
    and "\<not> list_end_match line" and "\<not> in_list st" and "key_value_match line = None"
  shows "save_line env cd st line = Inr (st\<lparr>new_lines := new_lines st @ [line]\<rparr>)"
  using assms by (simp add: save_line_def)

lemma save_line_key_value:
  assumes "list_start_match line = None" and "\<not> in_list st"
    and "key_value_match line = Some key"
    and "cd (current_parent_key st) = Some section" and "section (strip_quotes key) = Some v"
  shows "save_line env cd st line =
     Inr (st\<lparr>new_lines := new_lines st @
            [''        '' @ key @ '': '' @ value_real env v @ '','' @ line_end line]\<rparr>)"
proof -
  have p: "parent_key_match line = None"
    using assms(3) quoted_key_8_not_4 by (simp add: key_value_match_def parent_key_match_def)
  have e: "\<not> list_end_match line"
    using assms(3) by (rule key_value_not_list_end)
  show ?thesis
    using assms p e expand_template_key_value [of key "value_real env v", simplified]
    by (simp add: save_line_def key_value_sub_def bind_err_def)
qed

lemma chop_newline_append:
  "chop_newline x @ (if x \<noteq> [] \<and> last x = newline then [newline] else []) = x"
  by (cases x rule: rev_cases) (simp_all add: chop_newline_def)

lemma key_value_line_shape:
  assumes "key_value_match line = Some key"
  shows "\<exists>old. value_token old \<and> line = ''        '' @ key @ '': '' @ old @ '','' @ line_end line"
proof -
  from quoted_key_sound [OF assms [unfolded key_value_match_def]] obtain r where
    l: "line = replicate 8 CHR '' '' @ key @ r" and t: "key_value_tail r"
    by blast
  define d where "d = drop 2 r"
  define b where "b = chop_newline d"
  from t have r2: "take 2 r = '': ''" and b: "b \<noteq> []" "last b = CHR '',''"
    and v: "value_token (butlast b)"
    by (simp_all add: key_value_tail_def b_def d_def Let_def)
  have r: "r = '': '' @ d"
    using r2 append_take_drop_id [of 2 r] by (simp add: d_def)
  from b have dne: "d \<noteq> []"
    by (auto simp: b_def chop_newline_def split: if_splits)
  have dr: "d = b @ (if last d = newline then [newline] else [])"
    unfolding b_def using dne chop_newline_append [of d] by simp
  have bb: "b = butlast b @ '',''"
    using b by (metis append_butlast_last_id)
  have line: "line = ''        '' @ key @ '': '' @ d"
    by (simp add: l r numeral_eq_Suc)
  then have "last line = last d"
    using dne by simp
  moreover have "line \<noteq> []" using line by simp
  ultimately have le: "line_end line = (if last d = newline then [newline] else [])"
    by (simp add: line_end_def)
  have "d = (butlast b @ '','') @ line_end line"
    using dr bb le by simp
  then have deq: "d = butlast b @ '','' @ line_end line"
    by (simp only: append.assoc)
  have "''        '' @ key @ '': '' @ d
          = ''        '' @ key @ '': '' @ butlast b @ '','' @ line_end line"
    using deq by (rule arg_cong)
  with line have "line = ''        '' @ key @ '': '' @ butlast b @ '','' @ line_end line"
    by (rule trans)
  with v show ?thesis by blast
qed

lemma str_nat_digits: "set (str_nat n) \<subseteq> set ''0123456789''"
proof (induction n rule: str_nat.induct)
  case (1 n)
  have d: "digit_char m \<in> set ''0123456789''" if "m < 10" for m
  proof -
    from that have "m \<in> {0, 1, 2, 3, 4, 5, 6, 7, 8, 9}" by auto
    then show ?thesis by (auto simp: digit_char_def)
  qed
  show ?case
  proof (cases "n < 10")
    case True
    then show ?thesis using d [of n] by (subst str_nat.simps) simp
  next
    case False
    then show ?thesis
      using 1 d [of "n mod 10"] by (subst str_nat.simps) simp
  qed
qed

lemma str_int_no_dot: "CHR ''.'' \<notin> set (str_int i)"
  using str_nat_digits by (auto simp: str_int_def)

lemma str_int_not_dot_zero: "\<not> endswith (str_int i) ''.0''"
proof
  assume "endswith (str_int i) ''.0''"
  then have "drop (length (str_int i) - 2) (str_int i) = ''.0''"
    by (simp add: endswith_def numeral_2_eq_2)
  then have "CHR ''.'' \<in> set (drop (length (str_int i) - 2) (str_int i))" by simp
  then have "CHR ''.'' \<in> set (str_int i)" by (rule in_set_dropD)
  with str_int_no_dot show False by blast
qed

section \<open>Key-value lines\<close>

lemma replicate_4: "replicate 4 c = [c, c, c, c]"
  by (simp add: numeral_eq_Suc)

lemma replicate_8: "replicate 8 c = [c, c, c, c, c, c, c, c]"
  by (simp add: numeral_eq_Suc)

lemmas match_eval =
  parent_key_match_def list_start_match_def list_end_match_def key_value_match_def
  quoted_key_def parent_tail_def list_start_tail_def key_value_tail_def comment_tail_def
  chop_newline_def value_token_def quoted_def drop_space.simps whitespace_def
  replicate_4 replicate_8

lemmas save_eval =
  save_line_def strip_quotes_eq key_value_sub_def line_end_def bind_err_def
  value_real_def endswith_def list_block_def join_def iter_strs_def
  expand_template.simps py_replace.simps str_int_def str_nat.simps digit_char_def
  initial_state_def section_line_def field_line_def

lemmas file_eval =
  SaveConfig_def strip_prefix_def linux_env_def docker_env_def file_world_def
  read_text_def write_text_def

lemma SaveConfig_written:
  assumes "strip_prefix env config = Inr cd" and "config_yaml w = Some bytes"
    and "read_text env bytes = Inr text" and "readlines text = pre @ post"
    and "save_lines env cd initial_state pre = Inr st"
    and "SaveConfig env config w = (Returned (), w')"
  shows "\<exists>rest. config_yaml w' = Some (write_text env (concat (new_lines st)) @ rest)"
proof -
  from assms(1,2,3,6) obtain fin where
    fin: "save_lines env cd initial_state (readlines text) = Inr fin"
    and w': "w' = w\<lparr>config_yaml := Some (write_text env (concat (new_lines fin)))\<rparr>"
    by (auto simp: SaveConfig_def split: sum.splits)
  from fin assms(4,5) have "save_lines env cd st post = Inr fin"
    by (simp add: save_lines_append)
  from save_lines_grows [OF this] obtain more where
    "new_lines fin = new_lines st @ more" by auto
  then have "write_text env (concat (new_lines fin))
      = write_text env (concat (new_lines st)) @ write_text env (concat more)"
    by (simp add: write_text_append)
  with w' show ?thesis by simp
qed

lemma write_text_no_newline: "newline \<notin> set s \<Longrightarrow> write_text env s = s"
  by (induction s) (auto simp: write_text_def)

lemma write_text_newline: "write_text env [newline] = linesep env"
  by (simp add: write_text_def)

text \<open>
  Claim C1, as amended. Let a line of the file, as text mode reads it, match the
  key-value pattern and not the list-opening pattern, let it be reached outside a list
  block, and let its key be present in the section of the document named by the last
  section-opening line. Then the loop replaces it by a line with the same indentation,
  the same key text, the new value token, the comma and the same line end; the old line
  differs from it in the value token only, and the line stays as it is exactly when the
  old token is the new one. The token is the decimal text of a value of class \<^verbatim>\<open>int\<close>,
  which never ends in \<^verbatim>\<open>.0\<close>; the text of a value of class \<^verbatim>\<open>float\<close> without a final
  \<^verbatim>\<open>.0\<close>; \<^verbatim>\<open>true\<close>, \<^verbatim>\<open>false\<close> or \<^verbatim>\<open>null\<close>; a string between single quotes exactly
  as it is, every backslash written once; and for an instance of a subclass, such as
  the float the YAML parser gives, its text between single quotes. When \<open>SaveConfig\<close>
  returns, the file holds the new line after the output for the lines before it, each
  newline written as the line end of the platform.
\<close>

theorem SaveConfig_key_value_line:
  assumes "save_lines env cd initial_state pre = Inr st" and "\<not> in_list st"
    and "list_start_match line = None" and "key_value_match line = Some key"
    and "cd (current_parent_key st) = Some section" and "section (strip_quotes key) = Some v"
  shows "save_lines env cd initial_state (pre @ [line]) =
           Inr (st\<lparr>new_lines := new_lines st @
                  [''        '' @ key @ '': '' @ value_real env v @ '','' @ line_end line]\<rparr>)
    \<and> (\<exists>old. value_token old \<and> line = ''        '' @ key @ '': '' @ old @ '','' @ line_end line
          \<and> (''        '' @ key @ '': '' @ value_real env v @ '','' @ line_end line = line
                \<longleftrightarrow> old = value_real env v))
    \<and> (\<forall>i. v = PyInt i \<longrightarrow> value_real env v = str_int i \<and> \<not> endswith (str_int i) ''.0'')
    \<and> (\<forall>d. v = PyFloat (d @ ''.0'') \<longrightarrow> value_real env v = d)
    \<and> (\<forall>r. v = PyFloat r \<and> \<not> endswith r ''.0'' \<longrightarrow> value_real env v = r)
    \<and> (v = PyBool True \<longrightarrow> value_real env v = ''true'')
    \<and> (v = PyBool False \<longrightarrow> value_real env v = ''false'')
    \<and> (v = PyNone \<longrightarrow> value_real env v = ''null'')
    \<and> (\<forall>t. v = PyStr t \<longrightarrow> value_real env v = [squote] @ t @ [squote])
    \<and> (\<forall>u. v = PySub u \<longrightarrow> value_real env v = [squote] @ py_str env u @ [squote])
    \<and> (\<forall>config w bytes text post w'.
          strip_prefix env config = Inr cd \<and> config_yaml w = Some bytes
          \<and> read_text env bytes = Inr text \<and> readlines text = pre @ line # post
          \<and> SaveConfig env config w = (Returned (), w')
          \<longrightarrow> (\<exists>rest. config_yaml w' =
                 Some (write_text env (concat (new_lines st))
                       @ ''        '' @ key @ '': '' @ write_text env (value_real env v) @ '',''
                       @ write_text env (line_end line) @ rest)))
    \<and> write_text env [newline] = linesep env"
proof -
  let ?new = "''        '' @ key @ '': '' @ value_real env v @ '','' @ line_end line"
  have "save_line env cd st line = Inr (st\<lparr>new_lines := new_lines st @ [?new]\<rparr>)"
    using assms(3) assms(2) assms(4) assms(5) assms(6) by (rule save_line_key_value)
  then have step: "save_lines env cd initial_state (pre @ [line]) =
           Inr (st\<lparr>new_lines := new_lines st @ [?new]\<rparr>)"
    using assms(1) by (simp add: save_lines_append)
  from key_value_line_shape [OF assms(4)] obtain old where
    old: "value_token old" "line = ''        '' @ key @ '': '' @ old @ '','' @ line_end line"
    by blast
  have "?new = ''        '' @ key @ '': '' @ old @ '','' @ line_end line \<longleftrightarrow> old = value_real env v"
    by auto
  with old have shape: "\<exists>old. value_token old
          \<and> line = ''        '' @ key @ '': '' @ old @ '','' @ line_end line
          \<and> (?new = line \<longleftrightarrow> old = value_real env v)"
    by metis
  have int: "\<forall>i. v = PyInt i \<longrightarrow> value_real env v = str_int i \<and> \<not> endswith (str_int i) ''.0''"
    using str_int_not_dot_zero by (simp add: value_real_def Let_def)
  have fl: "\<forall>d. v = PyFloat (d @ ''.0'') \<longrightarrow> value_real env v = d"
    by (simp add: value_real_def endswith_def)
  have fl2: "\<forall>r. v = PyFloat r \<and> \<not> endswith r ''.0'' \<longrightarrow> value_real env v = r"
    by (simp add: value_real_def)
  have rest: "(v = PyBool True \<longrightarrow> value_real env v = ''true'')
    \<and> (v = PyBool False \<longrightarrow> value_real env v = ''false'')
    \<and> (v = PyNone \<longrightarrow> value_real env v = ''null'')
    \<and> (\<forall>t. v = PyStr t \<longrightarrow> value_real env v = [squote] @ t @ [squote])
    \<and> (\<forall>u. v = PySub u \<longrightarrow> value_real env v = [squote] @ py_str env u @ [squote])"
    by (simp add: value_real_def)
  have k: "newline \<notin> set key"
  proof -
    from quoted_key_sound [OF assms(4) [unfolded key_value_match_def]] obtain q x where
      "q = squote \<or> q = dquote" "key = q # x @ [q]" "newline \<notin> set x" by blast
    then show ?thesis by auto
  qed
  have wnew: "write_text env ?new = ''        '' @ key @ '': '' @ write_text env (value_real env v)
          @ '','' @ write_text env (line_end line)"
    using write_text_no_newline [OF k, of env]
    by (simp add: write_text_append) (simp add: write_text_def)
  have written: "\<exists>rest. config_yaml w' =
                 Some (write_text env (concat (new_lines st))
                       @ ''        '' @ key @ '': '' @ write_text env (value_real env v) @ '',''
                       @ write_text env (line_end line) @ rest)"
    if h: "strip_prefix env config = Inr cd" "config_yaml w = Some bytes"
      "read_text env bytes = Inr content" "readlines content = pre @ line # post"
      "SaveConfig env config w = (Returned (), w')"
    for config w bytes content post w'
  proof -
    have r: "readlines content = (pre @ [line]) @ post" using h(4) by simp
    from SaveConfig_written [OF h(1) h(2) h(3) r step h(5)] obtain rest where
      "config_yaml w' = Some (write_text env (concat (new_lines st) @ ?new) @ rest)"
      by auto
    then have "config_yaml w' = Some (write_text env (concat (new_lines st))
                       @ ''        '' @ key @ '': '' @ write_text env (value_real env v) @ '',''
                       @ write_text env (line_end line) @ rest)"
      using wnew by (simp add: write_text_append)
    then show ?thesis by blast
  qed
  from step shape int fl fl2 rest written write_text_newline [of env] show ?thesis by blast
qed

lemma readlines_text1:
  "readlines text1 =
     [''{'' @ [newline], section_line ''general'', ''        # debug mode'' @ [newline],
      field_line ''debug'' ''false'', field_line ''port'' ''7000'', ''    },'' @ [newline],
      ''}'' @ [newline]]"
  by (simp add: text1_def section_line_def field_line_def)

lemma read_text1: "read_text linux_env text1 = Inr text1"
  by (simp add: read_text_def linux_env_def universal_newlines_plain text1_def section_line_def
      field_line_def)

lemma save_lines_text1_start:
  "save_lines linux_env settings1 initial_state
     [''{'' @ [newline], section_line ''general'', ''        # debug mode'' @ [newline]]
   = Inr \<lparr>new_lines = [''{'' @ [newline], section_line ''general'',
                        ''        # debug mode'' @ [newline]],
          current_parent_key = ''general'', in_list = False, list_key = []\<rparr>"
  by (simp add: match_eval save_eval)

lemma SaveConfig_text1:
  "SaveConfig linux_env settings1 (file_world text1) = (Returned (), file_world text1_saved)"
proof -
  have l: "linesep linux_env = [newline]" by (simp add: linux_env_def)
  have s: "strip_prefix linux_env settings1 = Inr settings1"
    by (simp add: strip_prefix_def linux_env_def)
  have "save_lines linux_env settings1 initial_state (readlines text1)
      = Inr \<lparr>new_lines = [''{'' @ [newline], section_line ''general'',
                 ''        # debug mode'' @ [newline], field_line ''debug'' ''true'',
                 field_line ''port'' ''7000'', ''    },'' @ [newline], ''}'' @ [newline]],
               current_parent_key = ''general'', in_list = False, list_key = []\<rparr>"
    by (simp add: readlines_text1 settings1_def match_eval save_eval)
  then show ?thesis
    by (simp add: SaveConfig_def s file_world_def read_text1 write_text_plain [OF l]
        text1_saved_def)
qed

theorem SaveConfig_key_value_line_witness:
  "save_lines linux_env settings1 initial_state
     ([''{'' @ [newline], section_line ''general'', ''        # debug mode'' @ [newline]]
        @ [field_line ''debug'' ''false''])
   = Inr \<lparr>new_lines = [''{'' @ [newline], section_line ''general'',
                        ''        # debug mode'' @ [newline], field_line ''debug'' ''true''],
          current_parent_key = ''general'', in_list = False, list_key = []\<rparr>
   \<and> SaveConfig linux_env settings1 (file_world text1) = (Returned (), file_world text1_saved)"
proof -
  let ?st = "\<lparr>new_lines = [''{'' @ [newline], section_line ''general'',
                        ''        # debug mode'' @ [newline]],
          current_parent_key = ''general'', in_list = False, list_key = []\<rparr>"
  have a: "list_start_match (field_line ''debug'' ''false'') = None"
    by (simp add: field_line_def match_eval)
  have b: "key_value_match (field_line ''debug'' ''false'') = Some ([squote] @ ''debug'' @ [squote])"
    by (simp add: field_line_def match_eval)
  have c: "settings1 (current_parent_key ?st)
             = Some [''debug'' \<mapsto> PyBool True, ''port'' \<mapsto> PyInt 7000]"
    by (simp add: settings1_def)
  have d: "[''debug'' \<mapsto> PyBool True, ''port'' \<mapsto> PyInt 7000]
             (strip_quotes ([squote] @ ''debug'' @ [squote])) = Some (PyBool True)"
    by (simp add: strip_quotes_eq)
  have e: "\<not> in_list ?st" by simp
  note t = SaveConfig_key_value_line [OF save_lines_text1_start e a b c d]
  from t have "save_lines linux_env settings1 initial_state
     ([''{'' @ [newline], section_line ''general'', ''        # debug mode'' @ [newline]]
        @ [field_line ''debug'' ''false''])
     = Inr (?st\<lparr>new_lines := new_lines ?st @
            [''        '' @ ([squote] @ ''debug'' @ [squote]) @ '': ''
              @ value_real linux_env (PyBool True) @ '',''
              @ line_end (field_line ''debug'' ''false'')]\<rparr>)"
    by (rule conjunct1)
  then have first: "save_lines linux_env settings1 initial_state
     ([''{'' @ [newline], section_line ''general'', ''        # debug mode'' @ [newline]]
        @ [field_line ''debug'' ''false''])
   = Inr \<lparr>new_lines = [''{'' @ [newline], section_line ''general'',
                        ''        # debug mode'' @ [newline], field_line ''debug'' ''true''],
          current_parent_key = ''general'', in_list = False, list_key = []\<rparr>"
    by (simp add: field_line_def value_real_def line_end_def)
  from first SaveConfig_text1 show ?thesis by simp
qed

text \<open>
  The claim C1 as written says that a backslash of a string value is doubled in the
  written file. It is doubled only in the template given to \<^verbatim>\<open>re.sub\<close>, which turns
  the pair into one backslash again: the file gets the path with a single backslash.
\<close>

theorem SaveConfig_backslash_not_doubled:
  "SaveConfig linux_env settings2 (file_world text2)
     = (Returned (), file_world (section_line ''capture''
          @ field_line ''upload_folder'' ([squote] @ ''C:'' @ [backslash] @ ''caps'' @ [squote])))
   \<and> SaveConfig linux_env settings2 (file_world text2)
     \<noteq> (Returned (), file_world (section_line ''capture''
          @ field_line ''upload_folder''
              ([squote] @ ''C:'' @ [backslash, backslash] @ ''caps'' @ [squote])))"
proof -
  have s: "SaveConfig linux_env settings2 (file_world text2)
     = (Returned (), file_world (section_line ''capture''
          @ field_line ''upload_folder'' ([squote] @ ''C:'' @ [backslash] @ ''caps'' @ [squote])))"
    by (simp add: file_eval text2_def settings2_def match_eval save_eval)
  then show ?thesis
    by (simp add: file_world_def section_line_def field_line_def)
qed

lemma SaveConfig_subclass_float_quoted:
  "SaveConfig linux_env settings7 (file_world text7)
     = (Returned (), file_world (section_line ''general''
          @ field_line ''program_update_interval'' ([squote] @ ''5.0'' @ [squote])))"
  by (simp add: file_eval text7_def settings7_def match_eval save_eval)

section \<open>Lines that pass through, lines that are dropped and lines before the first section\<close>

lemma readlines_shape: "\<forall>l \<in> set (readlines t). l \<noteq> [] \<and> newline \<notin> set (butlast l)"
proof (induction t)
  case Nil
  show ?case by simp
next
  case (Cons c t)
  show ?case
  proof (cases "c = newline")
    case True
    with Cons show ?thesis by simp
  next
    case False
    show ?thesis
    proof (cases "readlines t")
      case Nil
      with False show ?thesis by simp
    next
      case (Cons l ls)
      with Cons.IH have "l \<noteq> []" "newline \<notin> set (butlast l)"
        "\<forall>x \<in> set ls. x \<noteq> [] \<and> newline \<notin> set (butlast x)"
        by simp_all
      with False Cons show ?thesis by simp
    qed
  qed
qed

lemma write_text_line:
  assumes "l \<noteq> []" and "newline \<notin> set (butlast l)"
  shows "write_text env l = (if last l = newline then butlast l @ linesep env else l)"
proof -
  have l: "l = butlast l @ [last l]" using assms(1) by simp
  have "write_text env l = write_text env (butlast l) @ write_text env [last l]"
    by (subst l) (simp only: write_text_append)
  also have "\<dots> = butlast l @ write_text env [last l]"
    using assms(2) by (simp add: write_text_no_newline)
  also have "\<dots> = (if last l = newline then butlast l @ linesep env else butlast l @ [last l])"
    by (simp add: write_text_def)
  finally show ?thesis using l by simp
qed

text \<open>
  Claim C2, as amended. Let a line of the file, as text mode reads it, match none of the
  four patterns. When it is reached while no list block is open, the loop writes it
  unchanged, and when \<open>SaveConfig\<close> returns the file holds the text of the line at its
  place after the output for the lines before it, with the newline that ends it written
  as the line end of the platform; so the line is the same byte for byte when the file
  has that line end already. When it is reached while a list block is open, the loop
  drops it: nothing is written for it and the state of the loop stays as it is.
\<close>

theorem SaveConfig_other_line:
  assumes "save_lines env cd initial_state pre = Inr st"
    and "parent_key_match line = None" and "list_start_match line = None"
    and "\<not> list_end_match line" and "key_value_match line = None"
  shows "(\<not> in_list st \<longrightarrow>
            save_lines env cd initial_state (pre @ [line])
              = Inr (st\<lparr>new_lines := new_lines st @ [line]\<rparr>))
    \<and> (in_list st \<longrightarrow> save_lines env cd initial_state (pre @ [line]) = Inr st)
    \<and> (\<forall>config w bytes text post w'.
          \<not> in_list st \<and> strip_prefix env config = Inr cd \<and> config_yaml w = Some bytes
          \<and> read_text env bytes = Inr text \<and> readlines text = pre @ line # post
          \<and> SaveConfig env config w = (Returned (), w')
          \<longrightarrow> (\<exists>rest. config_yaml w' =
                   Some (write_text env (concat (new_lines st)) @ write_text env line @ rest))
              \<and> write_text env line
                   = (if last line = newline then butlast line @ linesep env else line))
    \<and> (linesep env = [newline] \<longrightarrow> write_text env line = line)"
proof -
  have out: "save_lines env cd initial_state (pre @ [line])
              = Inr (st\<lparr>new_lines := new_lines st @ [line]\<rparr>)" if "\<not> in_list st"
  proof -
    have "save_line env cd st line = Inr (st\<lparr>new_lines := new_lines st @ [line]\<rparr>)"
      using assms(2) assms(3) assms(4) that assms(5) by (rule save_line_other)
    with assms(1) show ?thesis by (simp add: save_lines_append)
  qed
  have drop: "save_lines env cd initial_state (pre @ [line]) = Inr st" if "in_list st"
  proof -
    have "save_line env cd st line = Inr st"
      using assms(2,3,4) that by (simp add: save_line_def)
    with assms(1) show ?thesis by (simp add: save_lines_append)
  qed
  have written: "(\<exists>rest. config_yaml w' =
                   Some (write_text env (concat (new_lines st)) @ write_text env line @ rest))
              \<and> write_text env line
                   = (if last line = newline then butlast line @ linesep env else line)"
    if h: "\<not> in_list st" "strip_prefix env config = Inr cd" "config_yaml w = Some bytes"
      "read_text env bytes = Inr content" "readlines content = pre @ line # post"
      "SaveConfig env config w = (Returned (), w')"
    for config w bytes content post w'
  proof -
    have r: "readlines content = (pre @ [line]) @ post" using h(5) by simp
    from SaveConfig_written [OF h(2) h(3) h(4) r out [OF h(1)] h(6)] obtain rest where
      "config_yaml w' = Some (write_text env (concat (new_lines st) @ line) @ rest)"
      by auto
    then have a: "\<exists>rest. config_yaml w' =
                   Some (write_text env (concat (new_lines st)) @ write_text env line @ rest)"
      by (simp add: write_text_append)
    have "line \<in> set (readlines content)" using h(5) by simp
    with readlines_shape [of content] have "line \<noteq> []" "newline \<notin> set (butlast line)"
      by blast+
    then have "write_text env line
                   = (if last line = newline then butlast line @ linesep env else line)"
      by (rule write_text_line)
    with a show ?thesis by blast
  qed
  have same: "linesep env = [newline] \<longrightarrow> write_text env line = line"
    using write_text_plain by blast
  from out drop written same show ?thesis by blast
qed

theorem SaveConfig_other_line_witness:
  "save_lines linux_env settings1 initial_state
     ([''{'' @ [newline], section_line ''general''] @ [''        # debug mode'' @ [newline]])
   = Inr \<lparr>new_lines = [''{'' @ [newline], section_line ''general'',
                        ''        # debug mode'' @ [newline]],
          current_parent_key = ''general'', in_list = False, list_key = []\<rparr>
   \<and> (\<exists>rest. config_yaml (file_world text1_saved)
        = Some (concat [''{'' @ [newline], section_line ''general'']
                 @ (''        # debug mode'' @ [newline]) @ rest))"
proof -
  let ?st = "\<lparr>new_lines = [''{'' @ [newline], section_line ''general''],
          current_parent_key = ''general'', in_list = False, list_key = []\<rparr>"
  let ?line = "''        # debug mode'' @ [newline]"
  have a: "strip_prefix linux_env settings1 = Inr settings1"
    by (simp add: strip_prefix_def linux_env_def)
  have b: "config_yaml (file_world text1) = Some text1"
    by (simp add: file_world_def)
  have c: "readlines text1 = [''{'' @ [newline], section_line ''general''] @ ?line
             # [field_line ''debug'' ''false'', field_line ''port'' ''7000'',
                ''    },'' @ [newline], ''}'' @ [newline]]"
    by (simp add: readlines_text1)
  have d: "save_lines linux_env settings1 initial_state
             [''{'' @ [newline], section_line ''general''] = Inr ?st"
    by (simp add: match_eval save_eval)
  have e: "\<not> in_list ?st" by simp
  have f: "parent_key_match ?line = None" by (simp add: match_eval)
  have g: "list_start_match ?line = None" by (simp add: match_eval)
  have h: "\<not> list_end_match ?line" by (simp add: match_eval)
  have i: "key_value_match ?line = None" by (simp add: match_eval)
  have l: "linesep linux_env = [newline]" by (simp add: linux_env_def)
  note t = SaveConfig_other_line [where cd = settings1 and env = linux_env, OF d f g h i]
  from t e have first: "save_lines linux_env settings1 initial_state
     ([''{'' @ [newline], section_line ''general''] @ [?line])
       = Inr (?st\<lparr>new_lines := new_lines ?st @ [?line]\<rparr>)"
    by blast
  from t e a b read_text1 c SaveConfig_text1
  have "\<exists>rest. config_yaml (file_world text1_saved) =
          Some (write_text linux_env (concat (new_lines ?st)) @ write_text linux_env ?line @ rest)"
    by blast
  then have second: "\<exists>rest. config_yaml (file_world text1_saved)
        = Some (concat [''{'' @ [newline], section_line ''general''] @ ?line @ rest)"
    by (simp add: write_text_plain [OF l])
  from first second show ?thesis by simp
qed

text \<open>
  The claim C2 as written covers every line that matches none of the four patterns.
  A comment line between a list-opening line and the list-closing line matches none of
  them, and it is dropped with the rest of the old list: the written file does not
  contain it.
\<close>

theorem SaveConfig_drops_line_in_list:
  "parent_key_match (''            # keep me'' @ [newline]) = None
   \<and> list_start_match (''            # keep me'' @ [newline]) = None
   \<and> \<not> list_end_match (''            # keep me'' @ [newline])
   \<and> key_value_match (''            # keep me'' @ [newline]) = None
   \<and> ''            # keep me'' @ [newline] \<in> set (readlines text3)
   \<and> SaveConfig linux_env settings3 (file_world text3)
       = (Returned (), file_world (section_line ''general'' @ list_block ''xs'' [''b'']
                                    @ ''    },'' @ [newline]))
   \<and> \<not> contains (''            # keep me'' @ [newline])
          (section_line ''general'' @ list_block ''xs'' [''b''] @ ''    },'' @ [newline])"
proof -
  have r: "readlines text3 =
     [section_line ''general'', ''        '' @ [squote] @ ''xs'' @ [squote] @ '': ['' @ [newline],
      ''            # keep me'' @ [newline],
      ''            '' @ [squote] @ ''a'' @ [squote] @ '','' @ [newline],
      ''        ],'' @ [newline], ''    },'' @ [newline]]"
    by (simp add: text3_def section_line_def)
  have s: "SaveConfig linux_env settings3 (file_world text3)
       = (Returned (), file_world (section_line ''general'' @ list_block ''xs'' [''b'']
                                    @ ''    },'' @ [newline]))"
    by (simp add: file_eval text3_def settings3_def match_eval save_eval)
  have c: "\<not> contains (''            # keep me'' @ [newline])
          (section_line ''general'' @ list_block ''xs'' [''b''] @ ''    },'' @ [newline])"
    by (simp add: section_line_def list_block_def join_def)
  have m: "parent_key_match (''            # keep me'' @ [newline]) = None
   \<and> list_start_match (''            # keep me'' @ [newline]) = None
   \<and> \<not> list_end_match (''            # keep me'' @ [newline])
   \<and> key_value_match (''            # keep me'' @ [newline]) = None"
    by (simp add: match_eval)
  from r s c m show ?thesis by simp
qed

lemma SaveConfig_rewrites_line_ends:
  "SaveConfig linux_env settings1 (file_world text8)
     = (Returned (), file_world (''# settings'' @ [newline] @ ''{'' @ [newline]))"
  by (simp add: file_eval text8_def settings1_def match_eval save_eval)

lemma save_line_no_section:
  assumes "cd [] = None" and "current_parent_key st = []" and "\<not> in_list st"
    and "parent_key_match l = None"
  shows "save_line env cd st l = Inl KeyError
     \<or> (\<exists>st'. save_line env cd st l = Inr st' \<and> current_parent_key st' = [] \<and> \<not> in_list st')"
  using assms by (auto simp: save_line_def Let_def split: option.splits)

lemma save_lines_no_section:
  assumes "cd [] = None" and "current_parent_key st = []" and "\<not> in_list st"
    and "\<forall>l \<in> set pre. parent_key_match l = None"
  shows "save_lines env cd st pre = Inl KeyError
     \<or> (\<exists>st'. save_lines env cd st pre = Inr st' \<and> current_parent_key st' = [] \<and> \<not> in_list st')"
  using assms
proof (induction pre arbitrary: st)
  case Nil
  then show ?case by simp
next
  case (Cons l pre)
  from Cons.prems have "parent_key_match l = None" by simp
  from save_line_no_section [where cd = cd and st = st and l = l and env = env,
      OF Cons.prems(1) Cons.prems(2) Cons.prems(3) this]
  show ?case
  proof
    assume "save_line env cd st l = Inl KeyError"
    then show ?thesis by simp
  next
    assume "\<exists>st'. save_line env cd st l = Inr st' \<and> current_parent_key st' = [] \<and> \<not> in_list st'"
    then obtain st1 where s: "save_line env cd st l = Inr st1"
      and k: "current_parent_key st1 = []" and i: "\<not> in_list st1" by blast
    from Cons.prems have "\<forall>l \<in> set pre. parent_key_match l = None" by simp
    from Cons.IH [OF Cons.prems(1) k i this] s show ?thesis by simp
  qed
qed

lemma save_line_KeyError:
  assumes "cd [] = None" and "current_parent_key st = []" and "\<not> in_list st"
    and "list_start_match line \<noteq> None \<or> key_value_match line \<noteq> None"
  shows "save_line env cd st line = Inl KeyError"
proof (cases "list_start_match line")
  case (Some key)
  then have "parent_key_match line = None"
    using quoted_key_8_not_4 by (simp add: list_start_match_def parent_key_match_def)
  with Some assms show ?thesis
    by (simp add: save_line_def Let_def)
next
  case None
  with assms(4) obtain key where k: "key_value_match line = Some key" by auto
  then have "parent_key_match line = None"
    using quoted_key_8_not_4 by (simp add: key_value_match_def parent_key_match_def)
  moreover have "\<not> list_end_match line" using k by (rule key_value_not_list_end)
  ultimately show ?thesis
    using None k assms by (simp add: save_line_def)
qed

text \<open>
  Claim C10. When the document has no section with the empty name, as every
  \<^verbatim>\<open>ServerSettings\<close> document, and a line that matches the list-opening pattern or the
  key-value pattern comes before any section-opening line, \<open>SaveConfig\<close> raises
  \<open>KeyError\<close> and leaves the file as it is.
\<close>

theorem SaveConfig_KeyError_before_section:
  assumes "strip_prefix env config = Inr cd" and "cd [] = None"
    and "config_yaml w = Some bytes" and "read_text env bytes = Inr text"
    and "readlines text = pre @ line # post"
    and "\<forall>l \<in> set pre. parent_key_match l = None"
    and "list_start_match line \<noteq> None \<or> key_value_match line \<noteq> None"
  shows "SaveConfig env config w = (Raised KeyError, w)"
proof -
  have i: "current_parent_key initial_state = []" "\<not> in_list initial_state"
    by (simp_all add: initial_state_def)
  have "save_lines env cd initial_state (pre @ line # post) = Inl KeyError"
    using save_lines_no_section [where cd = cd and st = initial_state and pre = pre and env = env,
        OF assms(2) i assms(6)]
  proof
    assume "save_lines env cd initial_state pre = Inl KeyError"
    then show ?thesis by (simp add: save_lines_append)
  next
    assume "\<exists>st'. save_lines env cd initial_state pre = Inr st'
              \<and> current_parent_key st' = [] \<and> \<not> in_list st'"
    then obtain st' where s: "save_lines env cd initial_state pre = Inr st'"
      and k: "current_parent_key st' = []" and l: "\<not> in_list st'" by blast
    from save_line_KeyError [where cd = cd and st = st' and line = line and env = env,
          OF assms(2) k l assms(7)] s show ?thesis
      by (simp add: save_lines_append)
  qed
  with assms(1,3,4,5) show ?thesis by (simp add: SaveConfig_def)
qed

theorem SaveConfig_KeyError_before_section_witness:
  "SaveConfig linux_env settings1 (file_world (''{'' @ [newline] @ field_line ''port'' ''7000''))
     = (Raised KeyError, file_world (''{'' @ [newline] @ field_line ''port'' ''7000''))"
proof -
  let ?text = "''{'' @ [newline] @ field_line ''port'' ''7000''"
  have a: "strip_prefix linux_env settings1 = Inr settings1"
    by (simp add: strip_prefix_def linux_env_def)
  have b: "settings1 [] = None" by (simp add: settings1_def)
  have c: "config_yaml (file_world ?text) = Some ?text" by (simp add: file_world_def)
  have r: "read_text linux_env ?text = Inr ?text"
    by (simp add: read_text_def linux_env_def field_line_def)
  have d: "readlines ?text = [''{'' @ [newline]] @ field_line ''port'' ''7000'' # []"
    by (simp add: field_line_def)
  have e: "\<forall>l \<in> set [''{'' @ [newline]]. parent_key_match l = None"
    by (simp add: match_eval)
  have f: "list_start_match (field_line ''port'' ''7000'') \<noteq> None
             \<or> key_value_match (field_line ''port'' ''7000'') \<noteq> None"
    by (simp add: field_line_def match_eval)
  from SaveConfig_KeyError_before_section [where cd = settings1, OF a b c r d e f] show ?thesis .
qed

section \<open>List blocks\<close>

lemma readlines_line:
  "newline \<notin> set l \<Longrightarrow> readlines (l @ newline # rest) = (l @ [newline]) # readlines rest"
  by (induction l) auto

lemma readlines_elements:
  assumes "\<forall>item \<in> set items. newline \<notin> set item"
  shows "readlines (join ('','' @ [newline])
             (map (\<lambda>item. ''        '' @ [squote] @ item @ [squote]) items) @ newline # rest)
           = element_lines items @ readlines rest"
  using assms
proof (induction items rule: element_lines.induct)
  case 1
  show ?case by (simp add: join_def)
next
  case (2 item)
  then have "newline \<notin> set (''        '' @ [squote] @ item @ [squote])" by simp
  from readlines_line [OF this, of rest] show ?case by (simp add: join_def)
next
  case (3 item item' items)
  then have n: "newline \<notin> set (''        '' @ [squote] @ item @ [squote] @ '','')" by simp
  have "join ('','' @ [newline])
          (map (\<lambda>item. ''        '' @ [squote] @ item @ [squote]) (item # item' # items))
        = (''        '' @ [squote] @ item @ [squote] @ '','') @ newline
            # join ('','' @ [newline])
                (map (\<lambda>item. ''        '' @ [squote] @ item @ [squote]) (item' # items))"
    by (simp add: join_def)
  then have "readlines (join ('','' @ [newline])
          (map (\<lambda>item. ''        '' @ [squote] @ item @ [squote]) (item # item' # items))
          @ newline # rest)
      = readlines ((''        '' @ [squote] @ item @ [squote] @ '','') @ newline
            # (join ('','' @ [newline])
                (map (\<lambda>item. ''        '' @ [squote] @ item @ [squote]) (item' # items))
               @ newline # rest))"
    by simp
  also have "\<dots> = ((''        '' @ [squote] @ item @ [squote] @ '','') @ [newline])
       # readlines (join ('','' @ [newline])
                (map (\<lambda>item. ''        '' @ [squote] @ item @ [squote]) (item' # items))
               @ newline # rest)"
    using n by (rule readlines_line)
  also have "\<dots> = element_lines (item # item' # items) @ readlines rest"
    using 3 by simp
  finally show ?case .
qed

lemma readlines_list_block:
  assumes "newline \<notin> set k" and "\<forall>item \<in> set items. newline \<notin> set item"
  shows "readlines (list_block k items) = list_block_lines k items"
proof -
  have a: "newline \<notin> set (''    '' @ [squote] @ k @ [squote] @ '': ['')"
    using assms(1) by simp
  have b: "newline \<notin> set ''    ],''" by simp
  have "list_block k items =
      (''    '' @ [squote] @ k @ [squote] @ '': ['') @ newline #
        (join ('','' @ [newline]) (map (\<lambda>item. ''        '' @ [squote] @ item @ [squote]) items)
          @ newline # (''    ],'' @ newline # []))"
    by (simp add: list_block_def)
  then have "readlines (list_block k items) =
      ((''    '' @ [squote] @ k @ [squote] @ '': ['') @ [newline]) #
        readlines (join ('','' @ [newline]) (map (\<lambda>item. ''        '' @ [squote] @ item @ [squote]) items)
          @ newline # (''    ],'' @ newline # []))"
    using readlines_line [OF a] by simp
  also have "\<dots> = ((''    '' @ [squote] @ k @ [squote] @ '': ['') @ [newline]) #
        element_lines items @ readlines (''    ],'' @ newline # [])"
    using readlines_elements [OF assms(2)] by simp
  also have "\<dots> = list_block_lines k items"
    using readlines_line [OF b, of "[]"] by (simp add: list_block_lines_def)
  finally show ?thesis .
qed

lemma save_lines_others:
  assumes "\<forall>l \<in> set ls. parent_key_match l = None \<and> list_start_match l = None
             \<and> \<not> list_end_match l \<and> key_value_match l = None"
    and "\<not> in_list st"
  shows "save_lines env cd st ls = Inr (st\<lparr>new_lines := new_lines st @ ls\<rparr>)"
  using assms
proof (induction ls arbitrary: st)
  case Nil
  then show ?case by simp
next
  case (Cons l ls)
  then have "save_line env cd st l = Inr (st\<lparr>new_lines := new_lines st @ [l]\<rparr>)"
    by (intro save_line_other) auto
  moreover have "save_lines env cd (st\<lparr>new_lines := new_lines st @ [l]\<rparr>) ls
      = Inr (st\<lparr>new_lines := new_lines st @ [l]\<rparr>\<lparr>new_lines := new_lines (st\<lparr>new_lines := new_lines st @ [l]\<rparr>) @ ls\<rparr>)"
    using Cons.prems by (intro Cons.IH) auto
  ultimately show ?case by simp
qed

lemma lazy_dot_no_char:
  assumes "c \<notin> set cs" and "\<And>r. ok r \<Longrightarrow> r \<noteq> [] \<and> hd r = c"
  shows "lazy_dot ok q acc cs = None"
proof (rule ccontr)
  assume "lazy_dot ok q acc cs \<noteq> None"
  then obtain x where "lazy_dot ok q acc cs = Some x" by auto
  from lazy_dot_sound [OF this] obtain pre r where "cs = pre @ q # r" and "ok r" by blast
  with assms(2) [of r] have "c \<in> set cs" by (cases r) auto
  with assms(1) show False by blast
qed

lemma element_line_no_match:
  assumes "CHR '':'' \<notin> set item" and "e = '','' @ [newline] \<or> e = [newline]"
  shows "parent_key_match (''        '' @ [squote] @ item @ [squote] @ e) = None
     \<and> list_start_match (''        '' @ [squote] @ item @ [squote] @ e) = None
     \<and> \<not> list_end_match (''        '' @ [squote] @ item @ [squote] @ e)
     \<and> key_value_match (''        '' @ [squote] @ item @ [squote] @ e) = None"
proof -
  have c: "CHR '':'' \<notin> set (item @ [squote] @ e)"
    using assms by auto
  have l: "lazy_dot list_start_tail squote [] (item @ [squote] @ e) = None"
  proof (rule lazy_dot_no_char [OF c])
    fix r assume "list_start_tail r"
    then show "r \<noteq> [] \<and> hd r = CHR '':''"
      by (cases r) (simp_all add: list_start_tail_def)
  qed
  have k: "lazy_dot key_value_tail squote [] (item @ [squote] @ e) = None"
  proof (rule lazy_dot_no_char [OF c])
    fix r assume "key_value_tail r"
    then show "r \<noteq> [] \<and> hd r = CHR '':''"
      by (cases r) (simp_all add: key_value_tail_def)
  qed
  show ?thesis
    using l k by (simp add: match_eval)
qed

lemma key_line_no_match:
  "parent_key_match (''    '' @ [squote] @ k @ [squote] @ '': ['' @ [newline]) = None
     \<and> list_start_match (''    '' @ [squote] @ k @ [squote] @ '': ['' @ [newline]) = None
     \<and> \<not> list_end_match (''    '' @ [squote] @ k @ [squote] @ '': ['' @ [newline])
     \<and> key_value_match (''    '' @ [squote] @ k @ [squote] @ '': ['' @ [newline]) = None"
proof -
  let ?cs = "k @ [squote] @ '': ['' @ [newline]"
  have p: "lazy_dot parent_tail squote [] ?cs = None"
  proof (rule ccontr)
    assume "lazy_dot parent_tail squote [] ?cs \<noteq> None"
    then obtain x where "lazy_dot parent_tail squote [] ?cs = Some x" by auto
    from lazy_dot_sound [OF this] obtain pre r where
      cs: "?cs = pre @ squote # r" and r: "parent_tail r" by blast
    from cs have "rev ?cs = rev r @ squote # rev pre" by simp
    then have "newline # CHR ''['' # CHR '' '' # CHR '':'' # squote # rev k = rev r @ squote # rev pre"
      by simp
    with r show False by (auto simp: parent_tail_def)
  qed
  show ?thesis using p by (simp add: match_eval)
qed

lemma element_lines_no_match:
  assumes "\<forall>item \<in> set items. CHR '':'' \<notin> set item"
  shows "\<forall>l \<in> set (element_lines items). parent_key_match l = None \<and> list_start_match l = None
             \<and> \<not> list_end_match l \<and> key_value_match l = None"
  using assms
proof (induction items rule: element_lines.induct)
  case 1
  show ?case by (simp add: match_eval)
next
  case (2 item)
  then have "CHR '':'' \<notin> set item" by simp
  from element_line_no_match [OF this, of "[newline]"] show ?case by simp
next
  case (3 item item' items)
  then have "CHR '':'' \<notin> set item" by simp
  from element_line_no_match [OF this, of "'','' @ [newline]"] 3 show ?case by simp
qed

lemma list_block_lines_no_match:
  assumes "\<forall>item \<in> set items. CHR '':'' \<notin> set item"
  shows "\<forall>l \<in> set (list_block_lines k items). parent_key_match l = None \<and> list_start_match l = None
             \<and> \<not> list_end_match l \<and> key_value_match l = None"
proof -
  have c: "parent_key_match (''    ],'' @ [newline]) = None
     \<and> list_start_match (''    ],'' @ [newline]) = None
     \<and> \<not> list_end_match (''    ],'' @ [newline])
     \<and> key_value_match (''    ],'' @ [newline]) = None"
    by (simp add: match_eval)
  show ?thesis
    using key_line_no_match [of k] element_lines_no_match [OF assms] c
    by (auto simp: list_block_lines_def)
qed

lemma save_line_list_start:
  assumes "list_start_match line = Some key" and "cd (current_parent_key st) = Some section"
    and "section (strip_quotes key) = Some v" and "iter_strs env v = Inr items"
  shows "save_line env cd st line =
     Inr (st\<lparr>list_key := strip_quotes key, in_list := True,
            new_lines := new_lines st @ [list_block (strip_quotes key) items]\<rparr>)"
proof -
  have "parent_key_match line = None"
    using assms(1) quoted_key_8_not_4 by (simp add: list_start_match_def parent_key_match_def)
  with assms show ?thesis
    by (simp add: save_line_def Let_def bind_err_def)
qed

lemma list_start_key_no_newline:
  assumes "list_start_match line = Some key"
  shows "newline \<notin> set (strip_quotes key)"
proof -
  from quoted_key_sound [OF assms [unfolded list_start_match_def]] obtain q x where
    "q = squote \<or> q = dquote" "key = q # x @ [q]" "newline \<notin> set x" by blast
  then show ?thesis by (auto simp: strip_quotes_eq)
qed

text \<open>
  Claim C9, as amended. For a line that matches the list-opening pattern, whose key is
  present in the section of the document and whose value can be iterated, the loop emits
  one block: the key line and the closing line with an indentation of four spaces, the
  items between them with an indentation of eight. When no item contains a newline or a
  colon, the lines of the block, as they are read back from the file, match none of the
  four patterns; a later run of the loop that reaches them while no list block is open
  writes them unchanged, whatever the document then holds.
\<close>

theorem SaveConfig_list_block:
  assumes "list_start_match line = Some key" and "cd (current_parent_key st) = Some section"
    and "section (strip_quotes key) = Some v" and "iter_strs env v = Inr items"
    and "\<forall>item \<in> set items. newline \<notin> set item \<and> CHR '':'' \<notin> set item"
    and "\<not> in_list st'"
  shows "save_line env cd st line =
           Inr (st\<lparr>list_key := strip_quotes key, in_list := True,
                  new_lines := new_lines st @ [list_block (strip_quotes key) items]\<rparr>)
    \<and> readlines (list_block (strip_quotes key) items) = list_block_lines (strip_quotes key) items
    \<and> (\<forall>l \<in> set (list_block_lines (strip_quotes key) items).
          parent_key_match l = None \<and> list_start_match l = None
          \<and> \<not> list_end_match l \<and> key_value_match l = None)
    \<and> save_lines env' cd' st' (readlines (list_block (strip_quotes key) items))
         = Inr (st'\<lparr>new_lines := new_lines st' @ readlines (list_block (strip_quotes key) items)\<rparr>)"
proof -
  have a: "save_line env cd st line =
           Inr (st\<lparr>list_key := strip_quotes key, in_list := True,
                  new_lines := new_lines st @ [list_block (strip_quotes key) items]\<rparr>)"
    using assms(1) assms(2) assms(3) assms(4) by (rule save_line_list_start)
  have n: "\<forall>item \<in> set items. newline \<notin> set item" using assms(5) by blast
  have c: "\<forall>item \<in> set items. CHR '':'' \<notin> set item" using assms(5) by blast
  have b: "readlines (list_block (strip_quotes key) items) = list_block_lines (strip_quotes key) items"
    using list_start_key_no_newline [OF assms(1)] n by (rule readlines_list_block)
  have d: "\<forall>l \<in> set (list_block_lines (strip_quotes key) items).
          parent_key_match l = None \<and> list_start_match l = None
          \<and> \<not> list_end_match l \<and> key_value_match l = None"
    using c by (rule list_block_lines_no_match)
  have e: "save_lines env' cd' st' (readlines (list_block (strip_quotes key) items))
         = Inr (st'\<lparr>new_lines := new_lines st' @ readlines (list_block (strip_quotes key) items)\<rparr>)"
    using d assms(6) unfolding b by (rule save_lines_others)
  from a b d e show ?thesis by blast
qed

theorem SaveConfig_list_block_witness:
  "save_line linux_env settings3
      \<lparr>new_lines = [section_line ''general''], current_parent_key = ''general'',
       in_list = False, list_key = []\<rparr>
      (''        '' @ [squote] @ ''xs'' @ [squote] @ '': ['' @ [newline])
     = Inr \<lparr>new_lines = [section_line ''general'', list_block ''xs'' [''b'']],
            current_parent_key = ''general'', in_list = True, list_key = ''xs''\<rparr>
   \<and> save_lines linux_env settings5
        \<lparr>new_lines = [section_line ''general''], current_parent_key = ''general'',
         in_list = False, list_key = []\<rparr>
        (readlines (list_block ''xs'' [''b'']))
     = Inr \<lparr>new_lines = [section_line ''general'',
                          ''    '' @ [squote] @ ''xs'' @ [squote] @ '': ['' @ [newline],
                          ''        '' @ [squote] @ ''b'' @ [squote] @ [newline],
                          ''    ],'' @ [newline]],
            current_parent_key = ''general'', in_list = False, list_key = []\<rparr>"
proof -
  let ?st = "\<lparr>new_lines = [section_line ''general''], current_parent_key = ''general'',
       in_list = False, list_key = []\<rparr>"
  let ?line = "''        '' @ [squote] @ ''xs'' @ [squote] @ '': ['' @ [newline]"
  have a: "list_start_match ?line = Some ([squote] @ ''xs'' @ [squote])"
    by (simp add: match_eval)
  have b: "settings3 (current_parent_key ?st) = Some [''xs'' \<mapsto> PyList [PyStr ''b'']]"
    by (simp add: settings3_def)
  have c: "[''xs'' \<mapsto> PyList [PyStr ''b'']] (strip_quotes ([squote] @ ''xs'' @ [squote]))
             = Some (PyList [PyStr ''b''])"
    by (simp add: strip_quotes_eq)
  have d: "iter_strs linux_env (PyList [PyStr ''b'']) = Inr [''b'']"
    by (simp add: iter_strs_def)
  have e: "\<forall>item \<in> set [''b'']. newline \<notin> set item \<and> CHR '':'' \<notin> set item"
    by simp
  have f: "\<not> in_list ?st" by simp
  note t = SaveConfig_list_block [where cd = settings3 and env' = linux_env and cd' = settings5,
      OF a b c d e f]
  from t have first: "save_line linux_env settings3 ?st ?line =
      Inr (?st\<lparr>list_key := strip_quotes ([squote] @ ''xs'' @ [squote]), in_list := True,
             new_lines := new_lines ?st @
               [list_block (strip_quotes ([squote] @ ''xs'' @ [squote])) [''b'']]\<rparr>)"
    by (rule conjunct1)
  from t have last: "save_lines linux_env settings5 ?st
        (readlines (list_block (strip_quotes ([squote] @ ''xs'' @ [squote])) [''b'']))
      = Inr (?st\<lparr>new_lines := new_lines ?st @
               readlines (list_block (strip_quotes ([squote] @ ''xs'' @ [squote])) [''b''])\<rparr>)"
    by blast
  from first last show ?thesis
    by (simp add: strip_quotes_eq list_block_def join_def)
qed

text \<open>
  The claim C9 as written says that a later run passes the block through unchanged. For
  an item that holds a quote, a colon and a quote, the line of the item in the block has
  the shape of a key-value line, and the later run rewrites it when the document holds
  that key.
\<close>

theorem SaveConfig_list_block_rewritten:
  "SaveConfig linux_env settings4 (file_world text4)
     = (Returned (), file_world (section_line ''general''
          @ list_block ''xs'' [''k'' @ [squote] @ '': '' @ [squote] @ ''v'', ''b'']))
   \<and> SaveConfig linux_env settings5 (file_world (section_line ''general''
          @ list_block ''xs'' [''k'' @ [squote] @ '': '' @ [squote] @ ''v'', ''b'']))
     = (Returned (), file_world (section_line ''general''
          @ ''    '' @ [squote] @ ''xs'' @ [squote] @ '': ['' @ [newline]
          @ field_line ''k'' ([squote] @ ''new'' @ [squote])
          @ ''        '' @ [squote] @ ''b'' @ [squote] @ [newline]
          @ ''    ],'' @ [newline]))
   \<and> \<not> contains (list_block ''xs'' [''k'' @ [squote] @ '': '' @ [squote] @ ''v'', ''b''])
         (section_line ''general''
          @ ''    '' @ [squote] @ ''xs'' @ [squote] @ '': ['' @ [newline]
          @ field_line ''k'' ([squote] @ ''new'' @ [squote])
          @ ''        '' @ [squote] @ ''b'' @ [squote] @ [newline]
          @ ''    ],'' @ [newline])"
proof -
  have r1: "readlines text4 = [section_line ''general'',
      ''        '' @ [squote] @ ''xs'' @ [squote] @ '': ['' @ [newline], ''        ],'' @ [newline]]"
    by (simp add: text4_def section_line_def)
  have a: "SaveConfig linux_env settings4 (file_world text4)
     = (Returned (), file_world (section_line ''general''
          @ list_block ''xs'' [''k'' @ [squote] @ '': '' @ [squote] @ ''v'', ''b'']))"
    by (simp add: file_eval text4_def settings4_def match_eval save_eval)
  have r2: "readlines (section_line ''general''
          @ list_block ''xs'' [''k'' @ [squote] @ '': '' @ [squote] @ ''v'', ''b''])
     = [section_line ''general'', ''    '' @ [squote] @ ''xs'' @ [squote] @ '': ['' @ [newline],
        field_line ''k'' ([squote] @ ''v'' @ [squote]),
        ''        '' @ [squote] @ ''b'' @ [squote] @ [newline], ''    ],'' @ [newline]]"
    by (simp add: section_line_def field_line_def list_block_def join_def)
  have b: "SaveConfig linux_env settings5 (file_world (section_line ''general''
          @ list_block ''xs'' [''k'' @ [squote] @ '': '' @ [squote] @ ''v'', ''b'']))
     = (Returned (), file_world (section_line ''general''
          @ ''    '' @ [squote] @ ''xs'' @ [squote] @ '': ['' @ [newline]
          @ field_line ''k'' ([squote] @ ''new'' @ [squote])
          @ ''        '' @ [squote] @ ''b'' @ [squote] @ [newline]
          @ ''    ],'' @ [newline]))"
    by (simp add: file_eval settings5_def match_eval save_eval)
  have c: "\<not> contains (list_block ''xs'' [''k'' @ [squote] @ '': '' @ [squote] @ ''v'', ''b''])
         (section_line ''general''
          @ ''    '' @ [squote] @ ''xs'' @ [squote] @ '': ['' @ [newline]
          @ field_line ''k'' ([squote] @ ''new'' @ [squote])
          @ ''        '' @ [squote] @ ''b'' @ [squote] @ [newline]
          @ ''    ],'' @ [newline])"
    by (simp add: section_line_def field_line_def list_block_def join_def)
  from a b c show ?thesis by simp
qed

section \<open>The singleton and the container prefix\<close>

lemma LoadConfig_Returned:
  assumes "LoadConfig env bypass w = (Returned c, w')"
  shows "CONFIG w' = Some c"
proof -
  have v: "on_validation_error msgs m w \<noteq> (Returned c, w')" for msgs m
    by (simp add: on_validation_error_eq)
  from assms v show ?thesis
    by (auto simp: LoadConfig_def split: if_splits option.splits sum.splits pyval.splits
        py_error.splits)
qed

lemma SaveConfig_CONFIG: "CONFIG (snd (SaveConfig env cfg w)) = CONFIG w"
  by (simp add: SaveConfig_def split: sum.splits option.splits)

text \<open>
  Claim C7. Once \<^verbatim>\<open>_CONFIG\<close> is set, every call of \<open>LoadConfig\<close>, with any flag, any
  collaborators and any file, fails the assertion and changes nothing; a call that
  returns has set \<^verbatim>\<open>_CONFIG\<close> to the settings it returns, so the call after it fails
  the assertion; and neither \<open>LoadConfig\<close> nor \<open>SaveConfig\<close> gives \<^verbatim>\<open>_CONFIG\<close> a new
  value once it is set.
\<close>

theorem LoadConfig_once:
  "(CONFIG w \<noteq> None \<longrightarrow>
      LoadConfig env bypass w = (Raised (AssertionError msg_already_loaded), w))
   \<and> (LoadConfig env bypass w = (Returned c, w') \<longrightarrow>
        CONFIG w' = Some c
        \<and> (\<forall>env' bypass' content. LoadConfig env' bypass' (w'\<lparr>config_yaml := content\<rparr>)
              = (Raised (AssertionError msg_already_loaded), w'\<lparr>config_yaml := content\<rparr>)))
   \<and> (CONFIG w \<noteq> None \<longrightarrow> CONFIG (snd (LoadConfig env bypass w)) = CONFIG w)
   \<and> CONFIG (snd (SaveConfig env cfg w)) = CONFIG w"
proof -
  have a: "LoadConfig e b v = (Raised (AssertionError msg_already_loaded), v)"
    if "CONFIG v \<noteq> None" for e b v
    using that by (simp add: LoadConfig_def)
  have b: "CONFIG w' = Some c
        \<and> (\<forall>env' bypass' content. LoadConfig env' bypass' (w'\<lparr>config_yaml := content\<rparr>)
              = (Raised (AssertionError msg_already_loaded), w'\<lparr>config_yaml := content\<rparr>))"
    if r: "LoadConfig env bypass w = (Returned c, w')"
  proof -
    from r have s: "CONFIG w' = Some c" by (rule LoadConfig_Returned)
    then have "CONFIG (w'\<lparr>config_yaml := content\<rparr>) \<noteq> None" for content by simp
    from a [OF this] s show ?thesis by blast
  qed
  have c: "CONFIG (snd (LoadConfig env bypass w)) = CONFIG w" if "CONFIG w \<noteq> None"
    using a [OF that] by simp
  from a [of w env bypass] b c SaveConfig_CONFIG [of env cfg w] show ?thesis by blast
qed

theorem LoadConfig_once_witness:
  "LoadConfig load_env False (file_world text1)
     = (Returned settings1,
        \<lparr>CONFIG = Some settings1, config_yaml = Some text1, logged = [LogDebug msg_loaded]\<rparr>)
   \<and> LoadConfig load_env True
        \<lparr>CONFIG = Some settings1, config_yaml = Some text1_saved, logged = [LogDebug msg_loaded]\<rparr>
     = (Raised (AssertionError msg_already_loaded),
        \<lparr>CONFIG = Some settings1, config_yaml = Some text1_saved, logged = [LogDebug msg_loaded]\<rparr>)"
proof -
  let ?w' = "\<lparr>CONFIG = Some settings1, config_yaml = Some text1, logged = [LogDebug msg_loaded]\<rparr>"
  have first: "LoadConfig load_env False (file_world text1) = (Returned settings1, ?w')"
    by (simp add: LoadConfig_def load_env_def file_world_def read_text_def py_dict_def
        normalize_def normalize_body_def step_err_def bind_err_def getitem2_def getitem_def
        dict_get_def universal_newlines_plain text1_def section_line_def field_line_def)
  from LoadConfig_once [of "file_world text1" load_env False settings1 ?w'] first
  have "\<forall>env' bypass' content. LoadConfig env' bypass' (?w'\<lparr>config_yaml := content\<rparr>)
              = (Raised (AssertionError msg_already_loaded), ?w'\<lparr>config_yaml := content\<rparr>)"
    by blast
  then have "LoadConfig load_env True (?w'\<lparr>config_yaml := Some text1_saved\<rparr>)
              = (Raised (AssertionError msg_already_loaded), ?w'\<lparr>config_yaml := Some text1_saved\<rparr>)"
    by blast
  with first show ?thesis by simp
qed

lemma py_replace_absent:
  assumes "old \<noteq> []" and "\<not> contains old s"
  shows "py_replace old new s = s"
  using assms(2)
proof (induction s)
  case Nil
  show ?case using assms(1) by (simp add: py_replace.simps)
next
  case (Cons c s)
  then have "take (length old) (c # s) \<noteq> old" and "py_replace old new s = s" by auto
  then show ?case using assms(1) by (subst py_replace.simps) simp
qed

lemma strip_after_prepend:
  assumes "\<not> contains DOCKER_PATH_PREFIX p"
  shows "py_replace DOCKER_PATH_PREFIX [] (DOCKER_PATH_PREFIX @ p) = p"
proof -
  have n: "DOCKER_PATH_PREFIX \<noteq> []" by (simp add: DOCKER_PATH_PREFIX_def)
  have "py_replace DOCKER_PATH_PREFIX [] (DOCKER_PATH_PREFIX @ p)
          = py_replace DOCKER_PATH_PREFIX [] p"
    using n by (subst py_replace.simps) simp
  with py_replace_absent [OF n assms] show ?thesis by simp
qed

text \<open>
  Claim C3 does not hold on the code. In the container, \<open>SaveConfig\<close> takes the prefix
  from \<^verbatim>\<open>capture.upload_folder\<close>, but it leaves \<^verbatim>\<open>tv.debug_mode_ts_path\<close> as it is
  when the value is a \<^verbatim>\<open>pathlib.Path\<close>, as it is after a validated load: the file gets
  the path with the prefix. And the prefix is removed with \<^verbatim>\<open>str.replace\<close>, at every
  place of the path, so a path that contains the text of the prefix does not come back.
\<close>

theorem SaveConfig_docker_prefix_kept:
  "SaveConfig docker_env settings6 (file_world text6) = (Returned (), file_world text6_saved)
   \<and> py_replace DOCKER_PATH_PREFIX [] (DOCKER_PATH_PREFIX @ ''/srv/host-rootfs/caps'')
       = ''/srv/caps''"
proof -
  have r: "readlines text6 =
     [section_line ''capture'', field_line ''upload_folder'' ([squote] @ ''/mnt/caps'' @ [squote]),
      ''    },'' @ [newline], section_line ''tv'',
      field_line ''debug_mode_ts_path'' ([squote] @ ''/mnt/test.ts'' @ [squote]),
      ''    },'' @ [newline]]"
    by (simp add: text6_def section_line_def field_line_def)
  have p: "py_replace DOCKER_PATH_PREFIX [] ''/host-rootfs/mnt/caps'' = ''/mnt/caps''"
    using strip_after_prepend [of "''/mnt/caps''"] by (simp add: DOCKER_PATH_PREFIX_def)
  have s: "strip_prefix docker_env settings6 =
     Inr [''tv'' \<mapsto> [''debug_mode_ts_path'' \<mapsto> PyPath ''/host-rootfs/mnt/test.ts''],
          ''capture'' \<mapsto> [''upload_folder'' \<mapsto> PyStr ''/mnt/caps'']]"
    by (simp add: strip_prefix_def docker_env_def settings6_def p Let_def)
  have a: "SaveConfig docker_env settings6 (file_world text6) = (Returned (), file_world text6_saved)"
    unfolding SaveConfig_def s
    by (simp add: file_world_def docker_env_def read_text_def write_text_def text6_def
        text6_saved_def match_eval save_eval)
  have b: "py_replace DOCKER_PATH_PREFIX [] (DOCKER_PATH_PREFIX @ ''/srv/host-rootfs/caps'')
       = ''/srv/caps''"
    by (simp add: DOCKER_PATH_PREFIX_def py_replace.simps)
  from a b show ?thesis by simp
qed

end
